theory Spec2Isabelle
  imports Main "HOL-Library.Word"
begin

section \<open>Provider-side deal handlers of chain/deals/handler\_states.go\<close>

text \<open>
  The phase handlers of the storage provider talk to collaborators (chain client,
  payment channels, DAG service, sector store, commitment tracker, response stream).
  Every call to a collaborator and every log line is recorded, in order, in a trace of
  events. A collaborator is an oracle that sees the trace of everything that happened
  before the call and the arguments of the call, so its answers may depend on the whole
  history. The handlers return Go's result tuple, or a panic where Go would panic (nil
  dereference, index out of range, integer division by zero).
\<close>

subsection \<open>Data\<close>

type_synonym u64 = "64 word"
type_synonym bytes = "8 word list"
type_synonym address = string
type_synonym BigInt = int

text \<open>
  \<open>types.BigInt\<close> wraps an unbounded integer (the wrapped pointer is taken to be
  non-nil, except in the payload that checkVoucher decodes itself). A cid is
  represented by its string form, the result of \<open>String()\<close>; for the zero value
  \<open>cid.Undef\<close> that is the multibase prefix alone, \<open>b\<close>.
\<close>

datatype cid = Cid (cid_String: string)

definition cid_Undef :: cid where
  "cid_Undef = Cid ''b''"

text \<open>
  types.ModVerifyParams and types.SignedVoucher, with the fields the handlers read. Of
  \<open>Merges\<close> only the length is read.
\<close>

record ModVerifyParams =
  Actor :: address
  Method :: u64
  Data :: bytes

record SignedVoucher =
  TimeLock :: u64
  Extra :: "ModVerifyParams option"
  Lane :: u64
  Amount :: BigInt
  MinCloseHeight :: u64
  Merges :: "nat list"

text \<open>
  actors.PieceInclVoucherData, the payload decoded from \<open>voucher.Extra.Data\<close>. The
  decoder leaves the pointer inside \<open>PieceSize\<close> nil when the payload carries no piece
  size: \<open>None\<close>.
\<close>

record PieceInclVoucherData =
  incl_CommP :: bytes
  incl_PieceSize :: "BigInt option"

text \<open>
  The payment part of a proposal. \<open>Vouchers\<close> is a slice of pointers
  (\<open>[]*types.SignedVoucher\<close>): an entry is \<open>None\<close> for a nil pointer.
  \<open>ChannelMessage\<close> is a \<open>*cid.Cid\<close>.
\<close>

record PaymentInfo =
  PayChActor :: address
  ChannelMessage :: "cid option"
  Vouchers :: "SignedVoucher option list"

record StorageDealProposal =
  PieceRef :: cid
  SerializationMode :: string
  CommP :: bytes
  Size :: u64
  TotalPrice :: BigInt
  Duration :: u64
  Payment :: PaymentInfo
  MinerAddress :: address

record MinerDeal =
  Proposal :: StorageDealProposal
  ProposalCid :: cid
  Ref :: cid
  SectorID :: u64

datatype DealState =
  DealNoUpdate | DealAccepted | DealStaged | DealSealing | DealComplete | DealFailed

record PieceInclusionProof =
  Position :: u64
  ProofElements :: bytes

record StorageDealResponse =
  resp_State :: DealState
  resp_Message :: string
  resp_Proposal :: cid
  resp_PieceInclusionProof :: PieceInclusionProof
  resp_CommD :: bytes
  resp_SectorCommitMessage :: "cid option"

text \<open>The zero value of the response struct; a composite literal overrides some fields.\<close>

definition StorageDealResponse_zero :: StorageDealResponse where
  "StorageDealResponse_zero =
     \<lparr>resp_State = DealNoUpdate, resp_Message = [], resp_Proposal = cid_Undef,
      resp_PieceInclusionProof = \<lparr>Position = 0, ProofElements = []\<rparr>,
      resp_CommD = [], resp_SectorCommitMessage = None\<rparr>"

text \<open>sectorbuilder.SectorSealingStatus and its piece metadata.\<close>

datatype sealing_state = Sealed | Failed | Pending | Sealing | UnknownState nat

record PieceMetadata =
  Key :: string
  InclusionProof :: bytes

record SectorSealingStatus =
  st_SectorID :: u64
  st_State :: sealing_state
  st_SealErrorMsg :: string
  st_CommD :: bytes
  st_Pieces :: "PieceMetadata list"

text \<open>actors.InclusionProof, the record that the Sealing phase serializes.\<close>

record InclusionProof_rec =
  ip_Sector :: u64
  ip_Proof :: bytes

record TipSet =
  Height :: u64

text \<open>
  An entry of the schedule returned by \<open>VoucherSpec\<close> (api.VoucherSpec), with the one
  field the handlers read.
\<close>

record VoucherSpecEntry =
  spec_Amount :: BigInt

subsection \<open>Errors and panics\<close>

text \<open>
  One constructor per error site of the file. An error produced by a collaborator is
  opaque: \<open>External\<close> of its message. The \<open>%w\<close> wrappers keep the wrapped error.
\<close>

type_synonym ext_error = string

datatype error =
    External ext_error
  | ExtraNotSet
  | ExtraActorMismatch address address
  | ExtraMethodMismatch u64 u64
  | DecodeVoucherDataFailed ext_error
  | PieceSizeMismatch u64 u64
  | CommPMismatch
  | MinCloseHeightTooHigh u64 u64
  | TimeLockTooHigh u64 u64
  | UnexpectedMerges
  | NotEnoughFunds BigInt BigInt nat
  | WrongLane u64 u64
  | NoPaymentVouchers
  | DealStartsTooFar u64 u64 u64 u64
  | ValidatingVoucher nat error
  | MinimumPrice BigInt
  | ConsumingVoucher nat ext_error
  | UnsupportedSerialization string
  | WaitingPaychMessage ext_error
  | GetFileRootFailed ext_error
  | CannotOpenUnixfs ext_error
  | UnsupportedUnixfsType
  | AddPieceFailed ext_error
  | InclusionProofNotFound string u64
  | SealingFailed u64 cid cid string
  | SectorPending u64
  | SectorStillSealing u64
  | UnknownSealStatusCode u64
  | StoringVoucherProof nat ext_error

datatype panic = NilDereference | IndexOutOfRange | DivideByZero

datatype 'a res = Panic panic | Ret 'a

subsection \<open>Events and collaborators\<close>

type_synonym ipld_Node = nat
type_synonym UnixfsReader = nat

text \<open>
  The node returned by \<open>unixfile.NewUnixfsFile\<close>: it either implements
  \<open>sectorblocks.UnixfsReader\<close> or it does not (a directory).
\<close>

datatype files_Node = FileNode UnixfsReader | OtherNode

datatype log_arg = ArgErr error | ArgSector u64

datatype event =
    EvChainHead
  | EvStateWaitMsg cid
  | EvPaychVoucherCheckValid address "SignedVoucher option"
  | EvPaychVoucherAdd address "SignedVoucher option" "bytes option" BigInt
  | EvSendSignedResponse StorageDealResponse "string option"
  | EvFetchGraph cid
  | EvDagGet cid
  | EvNewUnixfsFile ipld_Node
  | EvAddUnixfsPiece cid UnixfsReader u64
  | EvWaitSeal u64
  | EvWaitCommit address u64
  | EvLogInfo string
  | EvLogWarnf string log_arg

type_synonym trace = "event list"

text \<open>
  \<open>EvSendSignedResponse\<close> also records what the call returned (the message of the
  error, or \<open>None\<close>), so that a trace tells a failed send from a successful one.
\<close>

text \<open>The events a run appended to the trace it started from.\<close>

definition new_events :: "trace \<Rightarrow> trace \<Rightarrow> trace" where
  "new_events tr tr' = drop (length tr) tr'"

fun is_PaychVoucherAdd :: "event \<Rightarrow> bool" where
  "is_PaychVoucherAdd (EvPaychVoucherAdd ch v p d) = True"
| "is_PaychVoucherAdd ev = False"

fun is_FetchGraph :: "event \<Rightarrow> bool" where
  "is_FetchGraph (EvFetchGraph c) = True"
| "is_FetchGraph ev = False"

text \<open>The calls consumeVouchers makes: to the chain head and to the payment channel.\<close>

fun is_payment_event :: "event \<Rightarrow> bool" where
  "is_payment_event EvChainHead = True"
| "is_payment_event (EvPaychVoucherCheckValid ch v) = True"
| "is_payment_event (EvPaychVoucherAdd ch v p d) = True"
| "is_payment_event ev = False"

text \<open>
  Constants and library functions the file uses but does not define: the constants of
  package build, actors and sectorblocks, the CBOR codec, and \<open>VoucherSpec\<close> of this
  package. They are parameters of the model.
\<close>

record Params =
  DealVoucherSkewLimit :: u64
  PaymentVerifyInclusion :: u64
  SerializationUnixFs :: string
  SerializationUnixfs0 :: string
  DecodeInclChallenge :: "bytes \<Rightarrow> ext_error + PieceInclVoucherData"
  DumpInclusionProof :: "InclusionProof_rec \<Rightarrow> ext_error + bytes"
  VoucherSpec :: "u64 \<Rightarrow> BigInt \<Rightarrow> u64 \<Rightarrow> ModVerifyParams option \<Rightarrow> VoucherSpecEntry list"

text \<open>
  The Handler: its configured price and its collaborators. \<open>WaitCommit\<close> returns Go's
  pair of a cid and an error, because \<open>complete\<close> uses the cid also when the error
  is set.
\<close>

record Handler =
  pricePerByteBlock :: BigInt
  full_ChainHead :: "trace \<Rightarrow> ext_error + TipSet"
  full_StateWaitMsg :: "trace \<Rightarrow> cid \<Rightarrow> ext_error option"
  full_PaychVoucherCheckValid :: "trace \<Rightarrow> address \<Rightarrow> SignedVoucher option \<Rightarrow> ext_error option"
  full_PaychVoucherAdd ::
    "trace \<Rightarrow> address \<Rightarrow> SignedVoucher option \<Rightarrow> bytes option \<Rightarrow> BigInt \<Rightarrow> ext_error + BigInt"
  sendSignedResponse :: "trace \<Rightarrow> StorageDealResponse \<Rightarrow> ext_error option"
  FetchGraph :: "trace \<Rightarrow> cid \<Rightarrow> ext_error option"
  dag_Get :: "trace \<Rightarrow> cid \<Rightarrow> ext_error + ipld_Node"
  NewUnixfsFile :: "trace \<Rightarrow> ipld_Node \<Rightarrow> ext_error + files_Node"
  secst_AddUnixfsPiece :: "trace \<Rightarrow> cid \<Rightarrow> UnixfsReader \<Rightarrow> u64 \<Rightarrow> ext_error + u64"
  secst_WaitSeal :: "trace \<Rightarrow> u64 \<Rightarrow> ext_error + SectorSealingStatus"
  commt_WaitCommit :: "trace \<Rightarrow> address \<Rightarrow> u64 \<Rightarrow> cid \<times> ext_error option"

text \<open>\<open>big.Int.Uint64\<close>: the low 64 bits of the absolute value.\<close>

definition BigInt_Uint64 :: "BigInt \<Rightarrow> u64" where
  "BigInt_Uint64 x = word_of_int \<bar>x\<bar>"

subsection \<open>checkVoucher\<close>

definition checkVoucher ::
  "Params \<Rightarrow> Handler \<Rightarrow> MinerDeal \<Rightarrow> SignedVoucher option \<Rightarrow> u64 \<Rightarrow> u64 \<Rightarrow> BigInt \<Rightarrow> trace
     \<Rightarrow> error option res \<times> trace" where
  "checkVoucher bld h deal voucher lane maxClose amount tr =
     (let ch = PayChActor (Payment (Proposal deal));
          tr1 = tr @ [EvPaychVoucherCheckValid ch voucher]
      in case full_PaychVoucherCheckValid h tr ch voucher of
           Some err \<Rightarrow> (Ret (Some (External err)), tr1)
         | None \<Rightarrow>
            (case voucher of
               None \<Rightarrow> (Panic NilDereference, tr1)
             | Some v \<Rightarrow>
                (case Extra v of
                   None \<Rightarrow> (Ret (Some ExtraNotSet), tr1)
                 | Some ex \<Rightarrow>
                    if Actor ex \<noteq> MinerAddress (Proposal deal) then
                      (Ret (Some (ExtraActorMismatch (Actor ex) (MinerAddress (Proposal deal)))), tr1)
                    else if Method ex \<noteq> PaymentVerifyInclusion bld then
                      (Ret (Some (ExtraMethodMismatch (PaymentVerifyInclusion bld) (Method ex))), tr1)
                    else
                      (case DecodeInclChallenge bld (Data ex) of
                         Inl err \<Rightarrow> (Ret (Some (DecodeVoucherDataFailed err)), tr1)
                       | Inr inclChallenge \<Rightarrow>
                         (case incl_PieceSize inclChallenge of
                            None \<Rightarrow> (Panic NilDereference, tr1)
                          | Some pieceSize \<Rightarrow>
                          if BigInt_Uint64 pieceSize \<noteq> Size (Proposal deal) then
                            (Ret (Some (PieceSizeMismatch (BigInt_Uint64 pieceSize)
                                          (Size (Proposal deal)))), tr1)
                          else if incl_CommP inclChallenge \<noteq> CommP (Proposal deal) then
                            (Ret (Some CommPMismatch), tr1)
                          else if MinCloseHeight v > maxClose then
                            (Ret (Some (MinCloseHeightTooHigh (MinCloseHeight v) maxClose)), tr1)
                          else if TimeLock v > maxClose then
                            (Ret (Some (TimeLockTooHigh (TimeLock v) maxClose)), tr1)
                          else if length (Merges v) > 0 then
                            (Ret (Some UnexpectedMerges), tr1)
                          else if Amount v < amount then
                            (Ret (Some (NotEnoughFunds (Amount v) amount
                                          (length (Vouchers (Payment (Proposal deal)))))), tr1)
                          else if Lane v \<noteq> lane then
                            (Ret (Some (WrongLane lane (Lane v))), tr1)
                          else (Ret None, tr1))))))"

subsection \<open>consumeVouchers\<close>

text \<open>
  The first loop of consumeVouchers (validation), from index \<open>i\<close> on. The argument
  \<open>vspec[i].Amount\<close> is evaluated before the call, so a schedule shorter than the
  voucher list panics before the voucher is checked.
\<close>

fun validateVouchers ::
  "Params \<Rightarrow> Handler \<Rightarrow> MinerDeal \<Rightarrow> u64 \<Rightarrow> u64 \<Rightarrow> u64 \<Rightarrow> VoucherSpecEntry list \<Rightarrow> nat
     \<Rightarrow> SignedVoucher option list \<Rightarrow> trace \<Rightarrow> error option res \<times> trace" where
  "validateVouchers bld h deal curH increment lane vspec i [] tr = (Ret None, tr)"
| "validateVouchers bld h deal curH increment lane vspec i (voucher # rest) tr =
     (let maxClose = curH + (increment * of_nat (i + 1)) + DealVoucherSkewLimit bld
      in if length vspec \<le> i then (Panic IndexOutOfRange, tr)
         else
           (case checkVoucher bld h deal voucher lane maxClose (spec_Amount (vspec ! i)) tr of
              (Panic p, tr') \<Rightarrow> (Panic p, tr')
            | (Ret (Some err), tr') \<Rightarrow> (Ret (Some (ValidatingVoucher i err)), tr')
            | (Ret None, tr') \<Rightarrow>
                validateVouchers bld h deal curH increment lane vspec (i + 1) rest tr'))"

text \<open>The second loop (redemption), from index \<open>i\<close> on with the running \<open>prevAmt\<close>.\<close>

fun redeemVouchers ::
  "Handler \<Rightarrow> MinerDeal \<Rightarrow> VoucherSpecEntry list \<Rightarrow> nat \<Rightarrow> SignedVoucher option list \<Rightarrow> BigInt
     \<Rightarrow> trace \<Rightarrow> error option res \<times> trace" where
  "redeemVouchers h deal vspec i [] prevAmt tr = (Ret None, tr)"
| "redeemVouchers h deal vspec i (voucher # rest) prevAmt tr =
     (if length vspec \<le> i then (Panic IndexOutOfRange, tr)
      else
        (let ch = PayChActor (Payment (Proposal deal));
             minDelta = spec_Amount (vspec ! i) - prevAmt;
             tr1 = tr @ [EvPaychVoucherAdd ch voucher None minDelta]
         in case full_PaychVoucherAdd h tr ch voucher None minDelta of
              Inl err \<Rightarrow> (Ret (Some (ConsumingVoucher i err)), tr1)
            | Inr delta \<Rightarrow> redeemVouchers h deal vspec (i + 1) rest (prevAmt + delta) tr1))"

definition consumeVouchers ::
  "Params \<Rightarrow> Handler \<Rightarrow> MinerDeal \<Rightarrow> trace \<Rightarrow> error option res \<times> trace" where
  "consumeVouchers bld h deal tr =
     (let tr1 = tr @ [EvChainHead]
      in case full_ChainHead h tr of
           Inl err \<Rightarrow> (Ret (Some (External err)), tr1)
         | Inr curHead \<Rightarrow>
            (let vouchers = Vouchers (Payment (Proposal deal))
             in if length vouchers = 0 then (Ret (Some NoPaymentVouchers), tr1)
                else if (of_nat (length vouchers) :: u64) = 0 then (Panic DivideByZero, tr1)
                else
                  (let increment = Duration (Proposal deal) div of_nat (length vouchers)
                   in case hd vouchers of
                        None \<Rightarrow> (Panic NilDereference, tr1)
                      | Some first \<Rightarrow>
                         (let startH = TimeLock first - increment
                          in if startH > Height curHead + DealVoucherSkewLimit bld then
                               (Ret (Some (DealStartsTooFar startH (Height curHead)
                                             (Height curHead + DealVoucherSkewLimit bld) increment)), tr1)
                             else
                               (let vspec = VoucherSpec bld (Duration (Proposal deal))
                                              (TotalPrice (Proposal deal)) startH None;
                                    lane = Lane first
                                in case validateVouchers bld h deal (Height curHead) increment lane
                                          vspec 0 vouchers tr1 of
                                     (Panic p, tr2) \<Rightarrow> (Panic p, tr2)
                                   | (Ret (Some err), tr2) \<Rightarrow> (Ret (Some err), tr2)
                                   | (Ret None, tr2) \<Rightarrow>
                                      (let minPrice = pricePerByteBlock h * uint (Size (Proposal deal))
                                                        * uint (Duration (Proposal deal))
                                       in if minPrice > TotalPrice (Proposal deal) then
                                            (Ret (Some (MinimumPrice minPrice)), tr2)
                                          else redeemVouchers h deal vspec 0 vouchers 0 tr2))))))"

subsection \<open>The phase handlers\<close>

text \<open>
  A \<open>minerHandlerFunc\<close> returns Go's pair of a mutation closure and an error, either
  of which may be nil.
\<close>

type_synonym mutation = "MinerDeal \<Rightarrow> MinerDeal"
type_synonym handler_result = "(mutation option \<times> error option) res \<times> trace"

definition accept :: "Params \<Rightarrow> Handler \<Rightarrow> MinerDeal \<Rightarrow> trace \<Rightarrow> handler_result" where
  "accept bld h deal tr =
     (if SerializationMode (Proposal deal) \<noteq> SerializationUnixFs bld then
        (Ret (None, Some (UnsupportedSerialization (SerializationMode (Proposal deal)))), tr)
      else
        (let (waited, tr0) =
               (case ChannelMessage (Payment (Proposal deal)) of
                  None \<Rightarrow> (None, tr)
                | Some m \<Rightarrow>
                   (let trl = tr @ [EvLogInfo ''waiting for channel message to appear on chain'']
                    in (full_StateWaitMsg h trl m, trl @ [EvStateWaitMsg m])))
         in case waited of
              Some err \<Rightarrow> (Ret (None, Some (WaitingPaychMessage err)), tr0)
            | None \<Rightarrow>
               (case consumeVouchers bld h deal tr0 of
                  (Panic p, tr1) \<Rightarrow> (Panic p, tr1)
                | (Ret (Some err), tr1) \<Rightarrow> (Ret (None, Some err), tr1)
                | (Ret None, tr1) \<Rightarrow>
                   (let tr2 = tr1 @ [EvLogInfo ''fetching data for a deal''];
                        resp = StorageDealResponse_zero
                                 \<lparr>resp_State := DealAccepted, resp_Message := [],
                                  resp_Proposal := ProposalCid deal\<rparr>;
                        tr3 = tr2 @ [EvSendSignedResponse resp (sendSignedResponse h tr2 resp)]
                    in case sendSignedResponse h tr2 resp of
                         Some err \<Rightarrow> (Ret (None, Some (External err)), tr3)
                       | None \<Rightarrow>
                          (Ret (None, map_option External (FetchGraph h tr3 (Ref deal))),
                           tr3 @ [EvFetchGraph (Ref deal)])))))"

definition staged :: "Handler \<Rightarrow> MinerDeal \<Rightarrow> trace \<Rightarrow> handler_result" where
  "staged h deal tr =
     (let resp = StorageDealResponse_zero
                   \<lparr>resp_State := DealStaged, resp_Proposal := ProposalCid deal\<rparr>;
          tr1 = tr @ [EvSendSignedResponse resp (sendSignedResponse h tr resp)];
          tr2 = (case sendSignedResponse h tr resp of
                   Some err \<Rightarrow>
                     tr1 @ [EvLogWarnf ''Sending deal response failed: %s'' (ArgErr (External err))]
                 | None \<Rightarrow> tr1);
          tr3 = tr2 @ [EvDagGet (Ref deal)]
      in case dag_Get h tr2 (Ref deal) of
           Inl err \<Rightarrow> (Ret (None, Some (GetFileRootFailed err)), tr3)
         | Inr root \<Rightarrow>
            (let tr4 = tr3 @ [EvNewUnixfsFile root]
             in case NewUnixfsFile h tr3 root of
                  Inl err \<Rightarrow> (Ret (None, Some (CannotOpenUnixfs err)), tr4)
                | Inr OtherNode \<Rightarrow> (Ret (None, Some UnsupportedUnixfsType), tr4)
                | Inr (FileNode uf) \<Rightarrow>
                   (let tr5 = tr4 @ [EvAddUnixfsPiece (PieceRef (Proposal deal)) uf
                                        (Duration (Proposal deal))]
                    in case secst_AddUnixfsPiece h tr4 (PieceRef (Proposal deal)) uf
                              (Duration (Proposal deal)) of
                         Inl err \<Rightarrow> (Ret (None, Some (AddPieceFailed err)), tr5)
                       | Inr sectorID \<Rightarrow>
                          (Ret (Some (\<lambda>d. d\<lparr>SectorID := sectorID\<rparr>), None),
                           tr5 @ [EvLogWarnf ''New Sector: %d'' (ArgSector sectorID)]))))"

text \<open>The loop of getInclusionProof over \<open>status.Pieces\<close>, from position \<open>i\<close> on.\<close>

fun findPiece :: "string \<Rightarrow> nat \<Rightarrow> PieceMetadata list \<Rightarrow> PieceInclusionProof option" where
  "findPiece ref i [] = None"
| "findPiece ref i (p # ps) =
     (if Key p = ref then Some \<lparr>Position = of_nat i, ProofElements = InclusionProof p\<rparr>
      else findPiece ref (i + 1) ps)"

definition getInclusionProof :: "string \<Rightarrow> SectorSealingStatus \<Rightarrow> error + PieceInclusionProof" where
  "getInclusionProof ref status =
     (case findPiece ref 0 (st_Pieces status) of
        Some ip \<Rightarrow> Inr ip
      | None \<Rightarrow> Inl (InclusionProofNotFound ref (st_SectorID status)))"

definition waitSealed :: "Handler \<Rightarrow> MinerDeal \<Rightarrow> trace \<Rightarrow> (error + SectorSealingStatus) \<times> trace" where
  "waitSealed h deal tr =
     (let tr1 = tr @ [EvWaitSeal (SectorID deal)]
      in case secst_WaitSeal h tr (SectorID deal) of
           Inl err \<Rightarrow> (Inl (External err), tr1)
         | Inr status \<Rightarrow>
            (case st_State status of
               Sealed \<Rightarrow> (Inr status, tr1)
             | Failed \<Rightarrow>
                 (Inl (SealingFailed (SectorID deal) (ProposalCid deal) (Ref deal)
                         (st_SealErrorMsg status)), tr1)
             | Pending \<Rightarrow> (Inl (SectorPending (SectorID deal)), tr1)
             | Sealing \<Rightarrow> (Inl (SectorStillSealing (SectorID deal)), tr1)
             | UnknownState c \<Rightarrow> (Inl (UnknownSealStatusCode (st_SectorID status)), tr1)))"

text \<open>
  The loop of sealing that stores the proof for every voucher, from index \<open>i\<close> on.
  \<open>v.Extra.Method\<close> dereferences the voucher pointer and its \<open>Extra\<close> pointer.
\<close>

fun storeProofs ::
  "Params \<Rightarrow> Handler \<Rightarrow> MinerDeal \<Rightarrow> bytes \<Rightarrow> nat \<Rightarrow> SignedVoucher option list \<Rightarrow> trace
     \<Rightarrow> error option res \<times> trace" where
  "storeProofs bld h deal proofB i [] tr = (Ret None, tr)"
| "storeProofs bld h deal proofB i (v # rest) tr =
     (case v of
        None \<Rightarrow> (Panic NilDereference, tr)
      | Some sv \<Rightarrow>
         (case Extra sv of
            None \<Rightarrow> (Panic NilDereference, tr)
          | Some ex \<Rightarrow>
             if Method ex = PaymentVerifyInclusion bld then
               (let ch = PayChActor (Payment (Proposal deal));
                    tr1 = tr @ [EvPaychVoucherAdd ch v (Some proofB) 0]
                in case full_PaychVoucherAdd h tr ch v (Some proofB) 0 of
                     Inl err \<Rightarrow> (Ret (Some (StoringVoucherProof i err)), tr1)
                   | Inr delta \<Rightarrow> storeProofs bld h deal proofB (i + 1) rest tr1)
             else storeProofs bld h deal proofB (i + 1) rest tr))"

definition sealing :: "Params \<Rightarrow> Handler \<Rightarrow> MinerDeal \<Rightarrow> trace \<Rightarrow> handler_result" where
  "sealing bld h deal tr =
     (case waitSealed h deal tr of
        (Inl err, tr1) \<Rightarrow> (Ret (None, Some err), tr1)
      | (Inr status, tr1) \<Rightarrow>
         (case getInclusionProof (SerializationUnixfs0 bld @ cid_String (Ref deal)) status of
            Inl err \<Rightarrow> (Ret (None, Some err), tr1)
          | Inr ip \<Rightarrow>
             (case DumpInclusionProof bld
                     \<lparr>ip_Sector = SectorID deal, ip_Proof = ProofElements ip\<rparr> of
                Inl err \<Rightarrow> (Ret (None, Some (External err)), tr1)
              | Inr proofB \<Rightarrow>
                 (case storeProofs bld h deal proofB 0 (Vouchers (Payment (Proposal deal))) tr1 of
                    (Panic p, tr2) \<Rightarrow> (Panic p, tr2)
                  | (Ret (Some err), tr2) \<Rightarrow> (Ret (None, Some err), tr2)
                  | (Ret None, tr2) \<Rightarrow>
                     (let resp = StorageDealResponse_zero
                                   \<lparr>resp_State := DealSealing, resp_Proposal := ProposalCid deal,
                                    resp_PieceInclusionProof := ip, resp_CommD := st_CommD status\<rparr>;
                          tr3 = tr2 @ [EvSendSignedResponse resp (sendSignedResponse h tr2 resp)]
                      in case sendSignedResponse h tr2 resp of
                           Some err \<Rightarrow>
                             (Ret (None, None),
                              tr3 @ [EvLogWarnf ''Sending deal response failed: %s''
                                       (ArgErr (External err))])
                         | None \<Rightarrow> (Ret (None, None), tr3))))))"

definition complete :: "Handler \<Rightarrow> MinerDeal \<Rightarrow> trace \<Rightarrow> handler_result" where
  "complete h deal tr =
     (let tr1 = tr @ [EvWaitCommit (MinerAddress (Proposal deal)) (SectorID deal)];
          (mcid, werr) = commt_WaitCommit h tr (MinerAddress (Proposal deal)) (SectorID deal);
          tr2 = (case werr of
                   Some err \<Rightarrow>
                     tr1 @ [EvLogWarnf ''Waiting for sector commitment message: %s''
                              (ArgErr (External err))]
                 | None \<Rightarrow> tr1);
          resp = StorageDealResponse_zero
                   \<lparr>resp_State := DealComplete, resp_Proposal := ProposalCid deal,
                    resp_SectorCommitMessage := Some mcid\<rparr>;
          tr3 = tr2 @ [EvSendSignedResponse resp (sendSignedResponse h tr2 resp)]
      in case sendSignedResponse h tr2 resp of
           Some err \<Rightarrow>
             (Ret (None, None),
              tr3 @ [EvLogWarnf ''Sending deal response failed: %s'' (ArgErr (External err))])
         | None \<Rightarrow> (Ret (None, None), tr3))"

subsection \<open>The dispatcher\<close>

record minerDealUpdate =
  upd_newState :: DealState
  upd_id :: cid
  upd_err :: "error option"
  upd_mut :: "mutation option"

text \<open>
  The goroutine started by \<open>handle\<close> ends in a \<open>select\<close> between sending the update on
  \<open>h.updated\<close> and receiving from \<open>h.stop\<close>. It blocks until one of the two
  communications can proceed and then takes it; when both can, Go picks either. The
  outcome of the select is an input of the model; \<open>select_possible\<close> says which
  outcomes the state of the two channels allows.
\<close>

datatype select_outcome = SendProceeds | StopProceeds | BlocksForever

record chan_state =
  updated_received :: bool
  stop_fired :: bool

fun select_possible :: "chan_state \<Rightarrow> select_outcome \<Rightarrow> bool" where
  "select_possible c SendProceeds = updated_received c"
| "select_possible c StopProceeds = stop_fired c"
| "select_possible c BlocksForever = (\<not> updated_received c \<and> \<not> stop_fired c)"

text \<open>
  The body of the goroutine. The result is the list of updates delivered on
  \<open>h.updated\<close>, with the trace of the phase handler \<open>cb\<close>.
\<close>

definition handle ::
  "MinerDeal \<Rightarrow> (MinerDeal \<Rightarrow> trace \<Rightarrow> handler_result) \<Rightarrow> DealState \<Rightarrow> select_outcome \<Rightarrow> trace
     \<Rightarrow> minerDealUpdate list res \<times> trace" where
  "handle deal cb next sel tr =
     (case cb deal tr of
        (Panic p, tr1) \<Rightarrow> (Panic p, tr1)
      | (Ret (mut, err), tr1) \<Rightarrow>
         if err = None \<and> next = DealNoUpdate then (Ret [], tr1)
         else
           (case sel of
              SendProceeds \<Rightarrow>
                (Ret [\<lparr>upd_newState = next, upd_id = ProposalCid deal, upd_err = err,
                       upd_mut = mut\<rparr>], tr1)
            | StopProceeds \<Rightarrow> (Ret [], tr1)
            | BlocksForever \<Rightarrow> (Ret [], tr1)))"

subsection \<open>The payment schedule\<close>

text \<open>
  Modelled from the spec: \<open>VoucherSpec\<close>, the function of this package that computes
  the schedule, is not among the sources; consumeVouchers only calls it. The spec
  describes the entry for voucher index \<open>i\<close> as the cumulative amount that must have
  been redeemed by that point, derived from the total price by linear division of time
  across the deal's duration, with \<open>increment = duration / voucherCount\<close>: after index
  \<open>i\<close> the time covered is \<open>increment * (i + 1)\<close>, and the amount due is that share
  of the total price. No schedule exists for no vouchers or for a duration of zero.
\<close>

definition requiredAmount :: "BigInt \<Rightarrow> u64 \<Rightarrow> nat \<Rightarrow> nat \<Rightarrow> BigInt" where
  "requiredAmount totalPrice duration voucherCount i =
     (let increment = duration div of_nat voucherCount
      in (totalPrice * uint (increment * of_nat (i + 1))) div uint duration)"

definition voucherSchedule :: "BigInt \<Rightarrow> u64 \<Rightarrow> nat \<Rightarrow> BigInt list option" where
  "voucherSchedule totalPrice duration voucherCount =
     (if voucherCount = 0 \<or> duration = 0 then None
      else Some (map (requiredAmount totalPrice duration voucherCount) [0..<voucherCount]))"

subsection \<open>A concrete provider and deal\<close>

text \<open>
  Collaborators that always succeed, a codec that reads the commitment from the payload,
  a schedule of one entry for the full price, and a deal of one voucher. The examples
  below vary them field by field.
\<close>

definition demo_params :: Params where
  "demo_params =
     \<lparr>DealVoucherSkewLimit = 10, PaymentVerifyInclusion = 7,
      SerializationUnixFs = ''UnixFs'', SerializationUnixfs0 = ''0'',
      DecodeInclChallenge = (\<lambda>d. Inr \<lparr>incl_CommP = d, incl_PieceSize = Some 8\<rparr>),
      DumpInclusionProof = (\<lambda>p. Inr (ip_Proof p)),
      VoucherSpec = (\<lambda>duration price start extra. [\<lparr>spec_Amount = price\<rparr>])\<rparr>"

definition demo_handler :: Handler where
  "demo_handler =
     \<lparr>pricePerByteBlock = 0,
      full_ChainHead = (\<lambda>tr. Inr \<lparr>Height = 100\<rparr>),
      full_StateWaitMsg = (\<lambda>tr m. None),
      full_PaychVoucherCheckValid = (\<lambda>tr ch v. None),
      full_PaychVoucherAdd = (\<lambda>tr ch v p minDelta. Inr minDelta),
      sendSignedResponse = (\<lambda>tr r. None),
      FetchGraph = (\<lambda>tr c. None),
      dag_Get = (\<lambda>tr c. Inr 1),
      NewUnixfsFile = (\<lambda>tr n. Inr (FileNode 2)),
      secst_AddUnixfsPiece = (\<lambda>tr c uf d. Inr 7),
      secst_WaitSeal = (\<lambda>tr sid.
         Inr \<lparr>st_SectorID = sid, st_State = Sealed, st_SealErrorMsg = [], st_CommD = [9],
              st_Pieces = [\<lparr>Key = ''0data'', InclusionProof = [4, 5]\<rparr>]\<rparr>),
      commt_WaitCommit = (\<lambda>tr a sid. (Cid ''commit'', None))\<rparr>"

definition demo_extra :: ModVerifyParams where
  "demo_extra = \<lparr>Actor = ''miner'', Method = 7, Data = [1, 2, 3]\<rparr>"

definition demo_voucher :: SignedVoucher where
  "demo_voucher =
     \<lparr>TimeLock = 120, Extra = Some demo_extra, Lane = 0, Amount = 100,
      MinCloseHeight = 120, Merges = []\<rparr>"

definition demo_proposal :: StorageDealProposal where
  "demo_proposal =
     \<lparr>PieceRef = Cid ''piece'', SerializationMode = ''UnixFs'', CommP = [1, 2, 3], Size = 8,
      TotalPrice = 100, Duration = 20,
      Payment = \<lparr>PayChActor = ''paych'', ChannelMessage = None,
                 Vouchers = [Some demo_voucher]\<rparr>,
      MinerAddress = ''miner''\<rparr>"

definition demo_deal :: MinerDeal where
  "demo_deal =
     \<lparr>Proposal = demo_proposal, ProposalCid = Cid ''prop'', Ref = Cid ''data'', SectorID = 7\<rparr>"

text \<open>The deal with another voucher list.\<close>

definition deal_with_vouchers :: "SignedVoucher option list \<Rightarrow> MinerDeal" where
  "deal_with_vouchers vs =
     demo_deal\<lparr>Proposal := demo_proposal\<lparr>Payment :=
       \<lparr>PayChActor = ''paych'', ChannelMessage = None, Vouchers = vs\<rparr>\<rparr>\<rparr>"

text \<open>A provider that asks for at least 1 per byte and block: the deal's price of 100 is below 8 * 20.\<close>

definition pricey_handler :: Handler where
  "pricey_handler = demo_handler\<lparr>pricePerByteBlock := 1\<rparr>"

text \<open>A provider whose response stream is broken.\<close>

definition mute_handler :: Handler where
  "mute_handler = demo_handler\<lparr>sendSignedResponse := (\<lambda>tr r. Some ''stream reset'')\<rparr>"

text \<open>A provider whose chain client fails, in ChainHead and in WaitCommit.\<close>

definition offline_handler :: Handler where
  "offline_handler =
     demo_handler\<lparr>full_ChainHead := (\<lambda>tr. Inl ''no chain''),
                  commt_WaitCommit := (\<lambda>tr a sid. (cid_Undef, Some ''timeout''))\<rparr>"

text \<open>A provider whose commitment tracker returns a cid together with an error.\<close>

definition stale_commit_handler :: Handler where
  "stale_commit_handler =
     demo_handler\<lparr>commt_WaitCommit := (\<lambda>tr a sid. (Cid ''commit'', Some ''timeout''))\<rparr>"

text \<open>A codec for payloads that carry no piece size.\<close>

definition sizeless_params :: Params where
  "sizeless_params =
     demo_params\<lparr>DecodeInclChallenge := (\<lambda>d. Inr \<lparr>incl_CommP = d, incl_PieceSize = None\<rparr>)\<rparr>"

text \<open>A provider whose sealed sector holds another piece.\<close>

definition other_piece_handler :: Handler where
  "other_piece_handler =
     demo_handler\<lparr>secst_WaitSeal := (\<lambda>tr sid.
        Inr \<lparr>st_SectorID = sid, st_State = Sealed, st_SealErrorMsg = [], st_CommD = [9],
             st_Pieces = [\<lparr>Key = ''0other'', InclusionProof = [4, 5]\<rparr>]\<rparr>)\<rparr>"

text \<open>
  A deal of duration \<open>2^64 - 1\<close> with one voucher, locked at the current height 100.
\<close>

definition long_voucher :: SignedVoucher where
  "long_voucher = demo_voucher\<lparr>TimeLock := 100, MinCloseHeight := 100\<rparr>"

definition long_deal :: MinerDeal where
  "long_deal =
     demo_deal\<lparr>Proposal := demo_proposal\<lparr>Duration := 18446744073709551615, Payment :=
       \<lparr>PayChActor = ''paych'', ChannelMessage = None, Vouchers = [Some long_voucher]\<rparr>\<rparr>\<rparr>"

text \<open>A voucher that may only be closed at height 500, and one locked at height 10.\<close>

definition late_voucher :: SignedVoucher where
  "late_voucher = demo_voucher\<lparr>MinCloseHeight := 500\<rparr>"

definition early_voucher :: SignedVoucher where
  "early_voucher = demo_voucher\<lparr>TimeLock := 10\<rparr>"

text \<open>A phase handler that fails without touching anything.\<close>

definition failing_phase :: "MinerDeal \<Rightarrow> trace \<Rightarrow> handler_result" where
  "failing_phase deal tr = (Ret (None, Some UnsupportedUnixfsType), tr)"

section \<open>Properties\<close>

lemmas demo_defs = demo_params_def demo_handler_def demo_extra_def demo_voucher_def
  demo_proposal_def demo_deal_def deal_with_vouchers_def pricey_handler_def mute_handler_def
  offline_handler_def other_piece_handler_def long_voucher_def long_deal_def
  late_voucher_def early_voucher_def stale_commit_handler_def sizeless_params_def

subsection \<open>Auxiliary facts\<close>

lemma findPiece_None:
  "\<forall>p \<in> set ps. Key p \<noteq> ref \<Longrightarrow> findPiece ref i ps = None"
  by (induction ps arbitrary: i) auto

text \<open>checkVoucher makes one call, and passes only vouchers within the close height.\<close>

lemma checkVoucher_trace:
  "snd (checkVoucher bld h deal v lane mc amt tr) =
     tr @ [EvPaychVoucherCheckValid (PayChActor (Payment (Proposal deal))) v]"
  by (simp add: checkVoucher_def Let_def split: option.splits sum.splits)

lemma checkVoucher_ok:
  assumes "fst (checkVoucher bld h deal v lane mc amt tr) = Ret None"
  shows "\<exists>sv ex. v = Some sv \<and> Extra sv = Some ex \<and> MinCloseHeight sv \<le> mc \<and> TimeLock sv \<le> mc"
  using assms
  by (auto simp: checkVoucher_def Let_def not_less split: option.splits sum.splits if_splits)

lemma checkVoucher_late:
  assumes "mc < MinCloseHeight v \<or> mc < TimeLock v"
  shows "(\<exists>err. fst (checkVoucher bld h deal (Some v) lane mc amt tr) = Ret (Some err))
         \<or> (fst (checkVoucher bld h deal (Some v) lane mc amt tr) = Panic NilDereference
            \<and> (\<exists>ex incl. Extra v = Some ex \<and> DecodeInclChallenge bld (Data ex) = Inr incl
                  \<and> incl_PieceSize incl = None))"
  using assms
  by (auto simp: checkVoucher_def Let_def split: option.splits sum.splits)

lemma checkVoucher_late_error:
  assumes "mc < MinCloseHeight v \<or> mc < TimeLock v"
    and "full_PaychVoucherCheckValid h tr (PayChActor (Payment (Proposal deal))) (Some v) = None"
    and "Extra v = Some ex" and "Actor ex = MinerAddress (Proposal deal)"
    and "Method ex = PaymentVerifyInclusion bld"
    and "DecodeInclChallenge bld (Data ex) = Inr incl"
    and "incl_PieceSize incl = Some pieceSize"
    and "BigInt_Uint64 pieceSize = Size (Proposal deal)"
    and "incl_CommP incl = CommP (Proposal deal)"
  shows "fst (checkVoucher bld h deal (Some v) lane mc amt tr) =
           Ret (Some (if mc < MinCloseHeight v then MinCloseHeightTooHigh (MinCloseHeight v) mc
                      else TimeLockTooHigh (TimeLock v) mc))"
  using assms
  by (auto simp: checkVoucher_def Let_def)

text \<open>The validation loop calls PaychVoucherCheckValid for a prefix of the vouchers, for all of them when it passes.\<close>

lemma validateVouchers_trace:
  "\<exists>k. snd (validateVouchers bld h deal curH incr lane vspec i vs tr) =
     tr @ map (EvPaychVoucherCheckValid (PayChActor (Payment (Proposal deal)))) (take k vs)
   \<and> (fst (validateVouchers bld h deal curH incr lane vspec i vs tr) = Ret None \<longrightarrow> k = length vs)"
proof (induction vs arbitrary: i tr)
  case Nil
  then show ?case by simp
next
  case (Cons v vs)
  let ?mc = "curH + (incr * of_nat (i + 1)) + DealVoucherSkewLimit bld"
  let ?ev = "EvPaychVoucherCheckValid (PayChActor (Payment (Proposal deal)))"
  show ?case
  proof (cases "length vspec \<le> i")
    case True
    then have "snd (validateVouchers bld h deal curH incr lane vspec i (v # vs) tr)
                 = tr @ map ?ev (take 0 (v # vs))"
      and "fst (validateVouchers bld h deal curH incr lane vspec i (v # vs) tr) \<noteq> Ret None"
      by simp_all
    then show ?thesis by blast
  next
    case False
    obtain r tr' where c: "checkVoucher bld h deal v lane ?mc (spec_Amount (vspec ! i)) tr = (r, tr')"
      by (cases "checkVoucher bld h deal v lane ?mc (spec_Amount (vspec ! i)) tr")
    with checkVoucher_trace [of bld h deal v lane ?mc "spec_Amount (vspec ! i)" tr]
    have tr': "tr' = tr @ [?ev v]" by simp
    show ?thesis
    proof (cases "r = Ret None")
      case True
      from Cons.IH [of "i + 1" tr'] obtain k where
        k: "snd (validateVouchers bld h deal curH incr lane vspec (i + 1) vs tr')
              = tr' @ map ?ev (take k vs)"
           "fst (validateVouchers bld h deal curH incr lane vspec (i + 1) vs tr') = Ret None
              \<longrightarrow> k = length vs"
        by blast
      from False c True k tr'
      have "snd (validateVouchers bld h deal curH incr lane vspec i (v # vs) tr)
              = tr @ map ?ev (take (Suc k) (v # vs))"
        and "fst (validateVouchers bld h deal curH incr lane vspec i (v # vs) tr) = Ret None
              \<longrightarrow> Suc k = length (v # vs)"
        by (simp_all add: Let_def)
      then show ?thesis by blast
    next
      case ne: False
      from False c ne tr'
      have "snd (validateVouchers bld h deal curH incr lane vspec i (v # vs) tr)
              = tr @ map ?ev (take 1 (v # vs))"
        and "fst (validateVouchers bld h deal curH incr lane vspec i (v # vs) tr) \<noteq> Ret None"
        by (auto simp: Let_def split: res.splits option.splits)
      then show ?thesis by blast
    qed
  qed
qed

lemma validateVouchers_no_add:
  assumes "validateVouchers bld h deal curH incr lane vspec i vs tr = (r, tr2)"
  shows "filter is_PaychVoucherAdd tr2 = filter is_PaychVoucherAdd tr"
proof -
  from validateVouchers_trace [of bld h deal curH incr lane vspec i vs tr] assms
  obtain k where "tr2 = tr @ map (EvPaychVoucherCheckValid (PayChActor (Payment (Proposal deal)))) (take k vs)"
    by auto
  then show ?thesis by (simp add: filter_empty_conv)
qed

lemma validateVouchers_ok_trace:
  assumes "validateVouchers bld h deal curH incr lane vspec i vs tr = (Ret None, tr2)"
  shows "tr2 = tr @ map (EvPaychVoucherCheckValid (PayChActor (Payment (Proposal deal)))) vs"
  using validateVouchers_trace [of bld h deal curH incr lane vspec i vs tr] assms by auto

lemma validateVouchers_ok:
  "fst (validateVouchers bld h deal curH incr lane vspec i vs tr) = Ret None \<Longrightarrow> j < length vs \<Longrightarrow>
     \<exists>sv ex. vs ! j = Some sv \<and> Extra sv = Some ex
       \<and> MinCloseHeight sv \<le> curH + (incr * of_nat (i + j + 1)) + DealVoucherSkewLimit bld
       \<and> TimeLock sv \<le> curH + (incr * of_nat (i + j + 1)) + DealVoucherSkewLimit bld"
proof (induction vs arbitrary: i j tr)
  case Nil
  then show ?case by simp
next
  case (Cons v vs)
  let ?mc = "curH + (incr * of_nat (i + 1)) + DealVoucherSkewLimit bld"
  from Cons.prems(1) have inr: "\<not> length vspec \<le> i"
    by (auto simp: Let_def split: if_splits)
  obtain r tr' where c: "checkVoucher bld h deal v lane ?mc (spec_Amount (vspec ! i)) tr = (r, tr')"
    by (cases "checkVoucher bld h deal v lane ?mc (spec_Amount (vspec ! i)) tr")
  from Cons.prems(1) inr c have r: "r = Ret None"
    and rest: "fst (validateVouchers bld h deal curH incr lane vspec (i + 1) vs tr') = Ret None"
    by (auto simp: Let_def split: res.splits option.splits)
  show ?case
  proof (cases j)
    case 0
    from c r have "fst (checkVoucher bld h deal v lane ?mc (spec_Amount (vspec ! i)) tr) = Ret None"
      by simp
    from checkVoucher_ok [OF this] 0 show ?thesis by simp
  next
    case (Suc j')
    with Cons.prems(2) have "j' < length vs" by simp
    from Cons.IH [OF rest this] Suc show ?thesis by simp
  qed
qed

lemma validateVouchers_error:
  "fst (validateVouchers bld h deal curH incr lane vspec i vs tr) = Ret (Some e) \<Longrightarrow>
     \<exists>k e'. e = ValidatingVoucher k e'"
proof (induction vs arbitrary: i tr)
  case Nil
  then show ?case by simp
next
  case (Cons v vs)
  let ?mc = "curH + (incr * of_nat (i + 1)) + DealVoucherSkewLimit bld"
  from Cons.prems have inr: "\<not> length vspec \<le> i"
    by (auto simp: Let_def split: if_splits)
  obtain r tr' where c: "checkVoucher bld h deal v lane ?mc (spec_Amount (vspec ! i)) tr = (r, tr')"
    by (cases "checkVoucher bld h deal v lane ?mc (spec_Amount (vspec ! i)) tr")
  show ?case
  proof (cases "r = Ret None")
    case True
    with Cons.prems inr c
    have "fst (validateVouchers bld h deal curH incr lane vspec (i + 1) vs tr') = Ret (Some e)"
      by (simp add: Let_def)
    then show ?thesis by (rule Cons.IH)
  next
    case False
    with Cons.prems inr c show ?thesis
      by (auto simp: Let_def split: res.splits option.splits)
  qed
qed

text \<open>
  The ways through consumeVouchers: a return before the loops, a voucher that fails
  validation, or all vouchers valid, followed by the price check and the redemption.
\<close>

lemma consumeVouchers_cases:
  fixes bld h deal tr
  defines "vs \<equiv> Vouchers (Payment (Proposal deal))"
  defines "incr \<equiv> Duration (Proposal deal) div of_nat (length vs)"
  defines "minPrice \<equiv> pricePerByteBlock h * uint (Size (Proposal deal)) * uint (Duration (Proposal deal))"
  obtains
    (early) r where "consumeVouchers bld h deal tr = (r, tr @ [EvChainHead])"
      and "r \<noteq> Ret None" and "\<And>mp. r \<noteq> Ret (Some (MinimumPrice mp))"
  | (invalid) head first r tr2 where "full_ChainHead h tr = Inr head" and "hd vs = Some first"
      and "validateVouchers bld h deal (Height head) incr (Lane first)
             (VoucherSpec bld (Duration (Proposal deal)) (TotalPrice (Proposal deal))
                (TimeLock first - incr) None) 0 vs (tr @ [EvChainHead]) = (r, tr2)"
      and "r \<noteq> Ret None" and "consumeVouchers bld h deal tr = (r, tr2)"
  | (valid) head first tr2 where "full_ChainHead h tr = Inr head" and "vs \<noteq> []"
      and "hd vs = Some first"
      and "TimeLock first - incr \<le> Height head + DealVoucherSkewLimit bld"
      and "validateVouchers bld h deal (Height head) incr (Lane first)
             (VoucherSpec bld (Duration (Proposal deal)) (TotalPrice (Proposal deal))
                (TimeLock first - incr) None) 0 vs (tr @ [EvChainHead]) = (Ret None, tr2)"
      and "consumeVouchers bld h deal tr =
             (if TotalPrice (Proposal deal) < minPrice
              then (Ret (Some (MinimumPrice minPrice)), tr2)
              else redeemVouchers h deal
                     (VoucherSpec bld (Duration (Proposal deal)) (TotalPrice (Proposal deal))
                        (TimeLock first - incr) None) 0 vs 0 tr2)"
proof (cases "full_ChainHead h tr")
  case (Inl err)
  then have "consumeVouchers bld h deal tr = (Ret (Some (External err)), tr @ [EvChainHead])"
    by (simp add: consumeVouchers_def)
  then show ?thesis by (rule early) simp_all
next
  case (Inr head)
  show ?thesis
  proof (cases "vs = []")
    case True
    with Inr have "consumeVouchers bld h deal tr = (Ret (Some NoPaymentVouchers), tr @ [EvChainHead])"
      by (simp add: consumeVouchers_def vs_def)
    then show ?thesis by (rule early) simp_all
  next
    case ne: False
    show ?thesis
    proof (cases "(of_nat (length vs) :: u64) = 0")
      case True
      with Inr ne have "consumeVouchers bld h deal tr = (Panic DivideByZero, tr @ [EvChainHead])"
        by (simp add: consumeVouchers_def vs_def)
      then show ?thesis by (rule early) simp_all
    next
      case nz: False
      show ?thesis
      proof (cases "hd vs")
        case None
        with Inr ne nz have "consumeVouchers bld h deal tr = (Panic NilDereference, tr @ [EvChainHead])"
          by (simp add: consumeVouchers_def vs_def)
        then show ?thesis by (rule early) simp_all
      next
        case (Some first)
        let ?startH = "TimeLock first - incr"
        let ?vspec = "VoucherSpec bld (Duration (Proposal deal)) (TotalPrice (Proposal deal)) ?startH None"
        show ?thesis
        proof (cases "?startH > Height head + DealVoucherSkewLimit bld")
          case True
          with Inr ne nz Some
          have "consumeVouchers bld h deal tr =
                  (Ret (Some (DealStartsTooFar ?startH (Height head)
                                (Height head + DealVoucherSkewLimit bld) incr)), tr @ [EvChainHead])"
            by (simp add: consumeVouchers_def vs_def incr_def Let_def)
          then show ?thesis by (rule early) simp_all
        next
          case le: False
          obtain r tr2 where v: "validateVouchers bld h deal (Height head) incr (Lane first) ?vspec 0 vs
                                   (tr @ [EvChainHead]) = (r, tr2)"
            by (cases "validateVouchers bld h deal (Height head) incr (Lane first) ?vspec 0 vs
                         (tr @ [EvChainHead])")
          show ?thesis
          proof (cases "r = Ret None")
            case True
            with Inr ne nz Some le v
            have "consumeVouchers bld h deal tr =
                    (if TotalPrice (Proposal deal) < minPrice
                     then (Ret (Some (MinimumPrice minPrice)), tr2)
                     else redeemVouchers h deal ?vspec 0 vs 0 tr2)"
              by (simp add: consumeVouchers_def vs_def incr_def minPrice_def Let_def)
            with Inr ne Some le v True show ?thesis
              by (intro valid [of head first tr2]) (simp_all add: not_less)
          next
            case False
            with Inr ne nz Some le v have "consumeVouchers bld h deal tr = (r, tr2)"
              by (auto simp: consumeVouchers_def vs_def incr_def Let_def split: res.splits option.splits)
            with Inr Some v False show ?thesis
              by (intro invalid [of head first r tr2]) simp_all
          qed
        qed
      qed
    qed
  qed
qed

text \<open>Success and redemption both need every voucher validated and the price at the minimum.\<close>

lemma consumeVouchers_reaches_redeem:
  fixes bld h deal tr
  defines "vs \<equiv> Vouchers (Payment (Proposal deal))"
  defines "incr \<equiv> Duration (Proposal deal) div of_nat (length vs)"
  assumes "fst (consumeVouchers bld h deal tr) = Ret None
           \<or> filter is_PaychVoucherAdd (snd (consumeVouchers bld h deal tr))
               \<noteq> filter is_PaychVoucherAdd tr"
  shows "\<exists>head first. full_ChainHead h tr = Inr head \<and> vs \<noteq> [] \<and> hd vs = Some first
           \<and> TimeLock first - incr \<le> Height head + DealVoucherSkewLimit bld
           \<and> fst (validateVouchers bld h deal (Height head) incr (Lane first)
                    (VoucherSpec bld (Duration (Proposal deal)) (TotalPrice (Proposal deal))
                       (TimeLock first - incr) None) 0 vs (tr @ [EvChainHead])) = Ret None
           \<and> pricePerByteBlock h * uint (Size (Proposal deal)) * uint (Duration (Proposal deal))
               \<le> TotalPrice (Proposal deal)"
proof (cases bld h deal tr rule: consumeVouchers_cases)
  case (early r)
  with assms(3) show ?thesis by simp
next
  case (invalid head first r tr2)
  from validateVouchers_no_add [OF invalid(3)]
  have "filter is_PaychVoucherAdd tr2 = filter is_PaychVoucherAdd tr" by simp
  with assms(3) invalid(4,5) show ?thesis by simp
next
  case (valid head first tr2)
  from validateVouchers_no_add [OF valid(5)]
  have na: "filter is_PaychVoucherAdd tr2 = filter is_PaychVoucherAdd tr" by simp
  show ?thesis
  proof (cases "TotalPrice (Proposal deal)
                  < pricePerByteBlock h * uint (Size (Proposal deal)) * uint (Duration (Proposal deal))")
    case True
    with assms(3) valid(6) na show ?thesis by simp
  next
    case False
    with valid(1-5) show ?thesis by (auto simp: not_less vs_def incr_def)
  qed
qed

text \<open>The close height computed in 64 bits is at most the unbounded sum.\<close>

lemma unat_plus_le: "unat (x + y :: u64) \<le> unat x + unat y"
  by (simp add: unat_word_ariths)

lemma unat_times_of_nat_le: "unat (b * of_nat k :: u64) \<le> unat b * k"
proof -
  have "unat (b * of_nat k :: u64) \<le> unat b * unat (of_nat k :: u64)"
    by (simp add: unat_word_ariths)
  also have "\<dots> \<le> unat b * k"
    by (simp add: unat_of_nat)
  finally show ?thesis .
qed

lemma unat_maxClose_le:
  "unat (a + (b * of_nat k) + c :: u64) \<le> unat a + unat b * k + unat c"
proof -
  have "unat (a + (b * of_nat k) + c) \<le> unat (a + (b * of_nat k)) + unat c"
    by (rule unat_plus_le)
  also have "\<dots> \<le> unat a + unat (b * of_nat k) + unat c"
    using unat_plus_le [of a "b * of_nat k"] by simp
  also have "\<dots> \<le> unat a + unat b * k + unat c"
    using unat_times_of_nat_le [of b k] by simp
  finally show ?thesis .
qed

subsection \<open>Auxiliary facts: the events of a run\<close>

text \<open>The loops over the vouchers only talk to the payment channel.\<close>

lemma new_events_append: "new_events tr (tr @ evs) = evs"
  by (simp add: new_events_def)

lemma payment_event_other:
  "is_payment_event ev \<Longrightarrow> ev \<noteq> EvSendSignedResponse r e \<and> \<not> is_FetchGraph ev"
  by (cases ev) simp_all

lemma validateVouchers_prefix:
  assumes "validateVouchers bld h deal curH incr lane vspec i vs tr = (r, tr2)"
  shows "\<exists>k. tr2 = tr @ map (EvPaychVoucherCheckValid (PayChActor (Payment (Proposal deal))))
                          (take k vs)"
  using validateVouchers_trace [of bld h deal curH incr lane vspec i vs tr] assms by auto

lemma redeemVouchers_events:
  "\<exists>evs. snd (redeemVouchers h deal vspec i vs prevAmt tr) = tr @ evs
          \<and> (\<forall>ev \<in> set evs. is_payment_event ev)"
proof (induction vs arbitrary: i prevAmt tr)
  case Nil
  then show ?case by simp
next
  case (Cons v vs)
  show ?case
  proof (cases "length vspec \<le> i")
    case True
    then show ?thesis by simp
  next
    case False
    let ?ev = "EvPaychVoucherAdd (PayChActor (Payment (Proposal deal))) v None
                 (spec_Amount (vspec ! i) - prevAmt)"
    show ?thesis
    proof (cases "full_PaychVoucherAdd h tr (PayChActor (Payment (Proposal deal))) v None
                    (spec_Amount (vspec ! i) - prevAmt)")
      case (Inl err)
      with False have "snd (redeemVouchers h deal vspec i (v # vs) prevAmt tr) = tr @ [?ev]"
        by (simp add: Let_def)
      then show ?thesis by simp
    next
      case (Inr delta)
      from Cons.IH [of "i + 1" "prevAmt + delta" "tr @ [?ev]"] obtain evs where
        "snd (redeemVouchers h deal vspec (i + 1) vs (prevAmt + delta) (tr @ [?ev]))
           = (tr @ [?ev]) @ evs" and "\<forall>ev \<in> set evs. is_payment_event ev"
        by blast
      with False Inr
      have "snd (redeemVouchers h deal vspec i (v # vs) prevAmt tr) = tr @ (?ev # evs)"
        and "\<forall>ev \<in> set (?ev # evs). is_payment_event ev"
        by (simp_all add: Let_def)
      then show ?thesis by blast
    qed
  qed
qed

lemma storeProofs_events:
  "\<exists>evs. snd (storeProofs bld h deal proofB i vs tr) = tr @ evs
          \<and> (\<forall>ev \<in> set evs. is_payment_event ev)"
proof (induction vs arbitrary: i tr)
  case Nil
  then show ?case by simp
next
  case (Cons v vs)
  show ?case
  proof (cases v)
    case None
    then show ?thesis by simp
  next
    case (Some sv)
    show ?thesis
    proof (cases "Extra sv")
      case None
      with Some show ?thesis by simp
    next
      case (Some ex)
      note ex = this
      show ?thesis
      proof (cases "Method ex = PaymentVerifyInclusion bld")
        case False
        with \<open>v = Some sv\<close> ex Cons.IH [of "i + 1" tr] show ?thesis by simp
      next
        case True
        let ?ev = "EvPaychVoucherAdd (PayChActor (Payment (Proposal deal))) v (Some proofB) 0"
        show ?thesis
        proof (cases "full_PaychVoucherAdd h tr (PayChActor (Payment (Proposal deal))) v
                        (Some proofB) 0")
          case (Inl err)
          with \<open>v = Some sv\<close> ex True
          have "snd (storeProofs bld h deal proofB i (v # vs) tr) = tr @ [?ev]"
            by (simp add: Let_def)
          then show ?thesis by simp
        next
          case (Inr delta)
          from Cons.IH [of "i + 1" "tr @ [?ev]"] obtain evs where
            "snd (storeProofs bld h deal proofB (i + 1) vs (tr @ [?ev])) = (tr @ [?ev]) @ evs"
            and "\<forall>ev \<in> set evs. is_payment_event ev"
            by blast
          with \<open>v = Some sv\<close> ex True Inr
          have "snd (storeProofs bld h deal proofB i (v # vs) tr) = tr @ (?ev # evs)"
            and "\<forall>ev \<in> set (?ev # evs). is_payment_event ev"
            by (simp_all add: Let_def)
          then show ?thesis by blast
        qed
      qed
    qed
  qed
qed

lemma consumeVouchers_events:
  "\<exists>evs. snd (consumeVouchers bld h deal tr) = tr @ evs
          \<and> (\<forall>ev \<in> set evs. is_payment_event ev)"
proof (cases bld h deal tr rule: consumeVouchers_cases)
  case (early r)
  then show ?thesis by simp
next
  case (invalid head first r tr2)
  from validateVouchers_prefix [OF invalid(3)]
  obtain k where "tr2 = tr @ EvChainHead
      # map (EvPaychVoucherCheckValid (PayChActor (Payment (Proposal deal))))
          (take k (Vouchers (Payment (Proposal deal))))"
    by auto
  with invalid(5) show ?thesis by auto
next
  case (valid head first tr2)
  from validateVouchers_ok_trace [OF valid(5)]
  have tr2: "tr2 = tr @ EvChainHead
      # map (EvPaychVoucherCheckValid (PayChActor (Payment (Proposal deal))))
          (Vouchers (Payment (Proposal deal)))"
    by simp
  show ?thesis
  proof (cases "TotalPrice (Proposal deal)
                  < pricePerByteBlock h * uint (Size (Proposal deal)) * uint (Duration (Proposal deal))")
    case True
    with valid(6) tr2 show ?thesis by auto
  next
    case False
    let ?vspec = "VoucherSpec bld (Duration (Proposal deal)) (TotalPrice (Proposal deal))
                    (TimeLock first - Duration (Proposal deal)
                       div of_nat (length (Vouchers (Payment (Proposal deal))))) None"
    from redeemVouchers_events [of h deal ?vspec 0 "Vouchers (Payment (Proposal deal))" 0 tr2]
    obtain evs where "snd (redeemVouchers h deal ?vspec 0 (Vouchers (Payment (Proposal deal))) 0 tr2)
                        = tr2 @ evs" and "\<forall>ev \<in> set evs. is_payment_event ev"
      by blast
    with False valid(6) tr2 show ?thesis by auto
  qed
qed

lemma waitSealed_trace: "snd (waitSealed h deal tr) = tr @ [EvWaitSeal (SectorID deal)]"
  by (simp add: waitSealed_def Let_def split: sum.splits sealing_state.splits)

text \<open>What a failed send of the response leads to, phase by phase.\<close>

lemma staged_failed_send:
  assumes "EvSendSignedResponse resp (Some e) \<in> set (new_events tr (snd (staged h deal tr)))"
  shows "(\<exists>rest. new_events tr (snd (staged h deal tr)) =
            [EvSendSignedResponse resp (Some e),
             EvLogWarnf ''Sending deal response failed: %s'' (ArgErr (External e)),
             EvDagGet (Ref deal)] @ rest)
         \<and> (\<forall>m err. fst (staged h deal tr) = Ret (m, Some err) \<longrightarrow> err \<noteq> External e)"
  using assms
  by (auto simp: staged_def Let_def new_events_append
           split: option.splits sum.splits files_Node.splits)

lemma sealing_failed_send:
  assumes "EvSendSignedResponse resp (Some e) \<in> set (new_events tr (snd (sealing bld h deal tr)))"
  shows "fst (sealing bld h deal tr) = Ret (None, None)
         \<and> (\<exists>pre. new_events tr (snd (sealing bld h deal tr)) =
               pre @ [EvSendSignedResponse resp (Some e),
                      EvLogWarnf ''Sending deal response failed: %s'' (ArgErr (External e))])"
proof -
  let ?tr1 = "tr @ [EvWaitSeal (SectorID deal)]"
  obtain w where w: "waitSealed h deal tr = (w, ?tr1)"
    using waitSealed_trace [of h deal tr] by (cases "waitSealed h deal tr") simp
  show ?thesis
  proof (cases w)
    case (Inl err)
    with w assms show ?thesis by (simp add: sealing_def new_events_append)
  next
    case (Inr status)
    note st = this
    show ?thesis
    proof (cases "getInclusionProof (SerializationUnixfs0 bld @ cid_String (Ref deal)) status")
      case (Inl err)
      with w st assms show ?thesis by (simp add: sealing_def new_events_append)
    next
      case (Inr ip)
      note ip = this
      show ?thesis
      proof (cases "DumpInclusionProof bld \<lparr>ip_Sector = SectorID deal, ip_Proof = ProofElements ip\<rparr>")
        case (Inl err)
        with w st ip assms show ?thesis by (simp add: sealing_def new_events_append)
      next
        case (Inr proofB)
        obtain r tr2 where sp: "storeProofs bld h deal proofB 0 (Vouchers (Payment (Proposal deal))) ?tr1
                                  = (r, tr2)"
          by (cases "storeProofs bld h deal proofB 0 (Vouchers (Payment (Proposal deal))) ?tr1")
        from storeProofs_events [of bld h deal proofB 0 "Vouchers (Payment (Proposal deal))" ?tr1] sp
        obtain evs where tr2: "tr2 = ?tr1 @ evs" and pay: "\<forall>ev \<in> set evs. is_payment_event ev"
          by auto
        from pay have nosend: "EvSendSignedResponse resp (Some e) \<notin> set evs"
          using payment_event_other by blast
        let ?resp = "StorageDealResponse_zero
                       \<lparr>resp_State := DealSealing, resp_Proposal := ProposalCid deal,
                        resp_PieceInclusionProof := ip, resp_CommD := st_CommD status\<rparr>"
        show ?thesis
        proof (cases "r = Ret None")
          case False
          with w st ip Inr sp tr2 nosend assms show ?thesis
            by (auto simp: sealing_def new_events_append split: res.splits option.splits)
        next
          case True
          show ?thesis
          proof (cases "sendSignedResponse h tr2 ?resp")
            case None
            with w st ip Inr sp tr2 nosend True assms show ?thesis
              by (auto simp: sealing_def Let_def new_events_append)
          next
            case (Some err)
            with w st ip Inr sp True
            have res: "sealing bld h deal tr =
                    (Ret (None, None),
                     tr2 @ [EvSendSignedResponse ?resp (Some err),
                            EvLogWarnf ''Sending deal response failed: %s'' (ArgErr (External err))])"
              by (simp add: sealing_def Let_def)
            with tr2 nosend assms have "resp = ?resp \<and> e = err"
              by (auto simp: new_events_append)
            with res tr2 show ?thesis
              by (auto simp: new_events_append intro: exI [of _ "EvWaitSeal (SectorID deal) # evs"])
          qed
        qed
      qed
    qed
  qed
qed

lemma complete_failed_send:
  assumes "EvSendSignedResponse resp (Some e) \<in> set (new_events tr (snd (complete h deal tr)))"
  shows "fst (complete h deal tr) = Ret (None, None)
         \<and> (\<exists>pre. new_events tr (snd (complete h deal tr)) =
               pre @ [EvSendSignedResponse resp (Some e),
                      EvLogWarnf ''Sending deal response failed: %s'' (ArgErr (External e))])"
  using assms
  by (auto simp: complete_def Let_def new_events_append split: option.splits prod.splits)

lemma accept_failed_send:
  assumes "EvSendSignedResponse resp (Some e) \<in> set (new_events tr (snd (accept bld h deal tr)))"
  shows "fst (accept bld h deal tr) = Ret (None, Some (External e))
         \<and> filter is_FetchGraph (new_events tr (snd (accept bld h deal tr))) = []"
proof (cases "SerializationMode (Proposal deal) \<noteq> SerializationUnixFs bld")
  case True
  with assms show ?thesis by (simp add: accept_def new_events_def)
next
  case False
  let ?w = "case ChannelMessage (Payment (Proposal deal)) of
              None \<Rightarrow> (None, tr)
            | Some m \<Rightarrow>
               (let trl = tr @ [EvLogInfo ''waiting for channel message to appear on chain'']
                in (full_StateWaitMsg h trl m, trl @ [EvStateWaitMsg m]))"
  obtain waited tr0 where w: "?w = (waited, tr0)" by (cases ?w)
  then obtain pre where tr0: "tr0 = tr @ pre"
    and pre: "\<forall>ev \<in> set pre. ev \<noteq> EvSendSignedResponse resp (Some e) \<and> \<not> is_FetchGraph ev"
    by (cases "ChannelMessage (Payment (Proposal deal))") (auto simp: Let_def)
  show ?thesis
  proof (cases waited)
    case (Some err)
    with False w tr0 pre assms show ?thesis
      by (auto simp: accept_def new_events_append)
  next
    case None
    obtain r tr1 where c: "consumeVouchers bld h deal tr0 = (r, tr1)"
      by (cases "consumeVouchers bld h deal tr0")
    from consumeVouchers_events [of bld h deal tr0] c
    obtain evs where tr1: "tr1 = tr0 @ evs" and pay: "\<forall>ev \<in> set evs. is_payment_event ev"
      by auto
    from pay have evs: "\<forall>ev \<in> set evs. ev \<noteq> EvSendSignedResponse resp (Some e) \<and> \<not> is_FetchGraph ev"
      using payment_event_other by blast
    let ?resp = "StorageDealResponse_zero
                   \<lparr>resp_State := DealAccepted, resp_Message := [], resp_Proposal := ProposalCid deal\<rparr>"
    let ?tr2 = "tr1 @ [EvLogInfo ''fetching data for a deal'']"
    show ?thesis
    proof (cases "r = Ret None")
      case ne: False
      with False w None c tr0 tr1 pre evs assms show ?thesis
        by (auto simp: accept_def new_events_append split: res.splits option.splits)
    next
      case True
      show ?thesis
      proof (cases "sendSignedResponse h ?tr2 ?resp")
        case None
        with False w \<open>waited = None\<close> c True tr0 tr1 pre evs assms show ?thesis
          by (auto simp: accept_def Let_def new_events_append)
      next
        case (Some err)
        with False w \<open>waited = None\<close> c True
        have res: "accept bld h deal tr =
                     (Ret (None, Some (External err)),
                      ?tr2 @ [EvSendSignedResponse ?resp (Some err)])"
          by (simp add: accept_def Let_def)
        with tr0 tr1 pre evs assms have "e = err"
          by (auto simp: new_events_append)
        with res tr0 tr1 pre evs show ?thesis
          by (auto simp: new_events_append filter_empty_conv)
      qed
    qed
  qed
qed

subsection \<open>Auxiliary facts: nil pointers and the schedule\<close>

lemma storeProofs_no_panic:
  "\<forall>v \<in> set vs. \<exists>sv ex. v = Some sv \<and> Extra sv = Some ex \<Longrightarrow>
     fst (storeProofs bld h deal proofB i vs tr) \<noteq> Panic p"
proof (induction vs arbitrary: i tr)
  case Nil
  then show ?case by simp
next
  case (Cons v vs)
  then obtain sv ex where v: "v = Some sv" "Extra sv = Some ex" by auto
  from Cons.prems have rest: "\<forall>v \<in> set vs. \<exists>sv ex. v = Some sv \<and> Extra sv = Some ex" by simp
  from v Cons.IH [OF rest] show ?case
    by (simp add: Let_def split: sum.splits)
qed

lemma consumeVouchers_ok_extra:
  assumes "fst (consumeVouchers bld h deal tr) = Ret None"
  shows "\<forall>v \<in> set (Vouchers (Payment (Proposal deal))). \<exists>sv ex. v = Some sv \<and> Extra sv = Some ex"
proof
  fix v assume "v \<in> set (Vouchers (Payment (Proposal deal)))"
  then obtain j where j: "j < length (Vouchers (Payment (Proposal deal)))"
    and vj: "Vouchers (Payment (Proposal deal)) ! j = v"
    by (auto simp: in_set_conv_nth)
  from consumeVouchers_reaches_redeem [OF disjI1, OF assms]
  obtain head :: TipSet and first :: SignedVoucher where
    ok: "fst (validateVouchers bld h deal (Height head)
               (Duration (Proposal deal) div of_nat (length (Vouchers (Payment (Proposal deal)))))
               (Lane first)
               (VoucherSpec bld (Duration (Proposal deal)) (TotalPrice (Proposal deal))
                  (TimeLock first
                     - Duration (Proposal deal) div of_nat (length (Vouchers (Payment (Proposal deal)))))
                  None) 0 (Vouchers (Payment (Proposal deal))) (tr @ [EvChainHead])) = Ret None"
    by blast
  from validateVouchers_ok [OF ok j] vj show "\<exists>sv ex. v = Some sv \<and> Extra sv = Some ex"
    by auto
qed

lemma accept_ok_consumed:
  assumes "fst (accept bld h deal tr) = Ret (m, None)"
  shows "\<exists>tr0. fst (consumeVouchers bld h deal tr0) = Ret None"
proof -
  let ?w = "case ChannelMessage (Payment (Proposal deal)) of
              None \<Rightarrow> (None, tr)
            | Some m \<Rightarrow>
               (let trl = tr @ [EvLogInfo ''waiting for channel message to appear on chain'']
                in (full_StateWaitMsg h trl m, trl @ [EvStateWaitMsg m]))"
  obtain waited tr0 where w: "?w = (waited, tr0)" by (cases ?w)
  obtain r tr1 where c: "consumeVouchers bld h deal tr0 = (r, tr1)"
    by (cases "consumeVouchers bld h deal tr0")
  from assms w c have "r = Ret None"
    by (auto simp: accept_def Let_def split: if_splits option.splits res.splits)
  with c show ?thesis by (intro exI [of _ tr0]) simp
qed

lemma requiredAmount_eq:
  assumes n: "0 < n" and dv: "n dvd unat duration" and d: "duration \<noteq> 0" and k: "i < n"
  shows "requiredAmount totalPrice duration n i
           = (totalPrice * int (unat duration div n * (i + 1))) div int (unat duration)"
proof -
  from d have dpos: "0 < unat duration" by (simp add: unat_gt_0)
  with dv have nle: "n \<le> unat duration" by (rule dvd_imp_le)
  have dlt: "unat duration < 2 ^ 64" using unsigned_less [of duration] by simp
  with nle have nlt: "n < 2 ^ 64" by simp
  then have un: "unat (of_nat n :: u64) = n" by (simp add: unat_of_nat)
  have incr: "unat (duration div of_nat n) = unat duration div n"
    by (simp add: unat_div un)
  from k nlt have "i + 1 < 2 ^ 64" by simp
  moreover have "unat (of_nat (i + 1) :: u64) = (i + 1) mod 2 ^ LENGTH(64)"
    by (rule unat_of_nat)
  ultimately have ui: "unat (of_nat (i + 1) :: u64) = i + 1" by simp
  have "unat duration div n * (i + 1) \<le> unat duration div n * n"
    using k by (intro mult_le_mono2) simp
  also have "\<dots> \<le> unat duration" by simp
  finally have le: "unat duration div n * (i + 1) \<le> unat duration" .
  have small: "unat (duration div of_nat n) * unat (of_nat (i + 1) :: u64) < 2 ^ LENGTH(64)"
    unfolding incr ui using le dlt by simp
  then have "unat (duration div of_nat n * of_nat (i + 1))
               = unat (duration div of_nat n) * unat (of_nat (i + 1) :: u64)"
    by (rule unat_mult_lem [THEN iffD1])
  then have prod: "unat (duration div of_nat n * of_nat (i + 1)) = unat duration div n * (i + 1)"
    by (simp only: incr ui)
  show ?thesis
    by (simp only: requiredAmount_def Let_def uint_nat prod)
qed

subsection \<open>The dispatcher\<close>

text \<open>
  Claim C1 says that every phase outcome with a non-nil error is delivered to the owner's
  update channel exactly once, even when the shutdown signal fires concurrently. The
  select of \<open>handle\<close> has a second case, \<open><-h.stop\<close>: once the shutdown signal has
  fired Go may take it, also while the owner is receiving, and the update is dropped.
\<close>

theorem handle_error_lost_on_stop:
  "select_possible \<lparr>updated_received = True, stop_fired = True\<rparr> StopProceeds
   \<and> failing_phase demo_deal [] = (Ret (None, Some UnsupportedUnixfsType), [])
   \<and> handle demo_deal failing_phase DealFailed StopProceeds [] = (Ret [], [])"
  by (simp add: handle_def failing_phase_def)

text \<open>
  Claim C1, as the code has it: an outcome with a non-nil error is delivered at most once;
  exactly once when the send of the select proceeds, which is the only possible outcome
  when the owner receives and the shutdown signal has not fired; not at all when the
  select takes the shutdown signal, which is the only possible outcome when the signal
  has fired and the owner does not receive.
\<close>

theorem handle_error_delivery:
  assumes "cb deal tr = (Ret (mut, Some e), tr1)" and "select_possible c sel"
  shows "handle deal cb nxt sel tr =
           (Ret (if sel = SendProceeds
                 then [\<lparr>upd_newState = nxt, upd_id = ProposalCid deal, upd_err = Some e,
                        upd_mut = mut\<rparr>]
                 else []), tr1)
         \<and> (updated_received c \<and> \<not> stop_fired c \<longrightarrow> sel = SendProceeds)
         \<and> (stop_fired c \<and> \<not> updated_received c \<longrightarrow> sel = StopProceeds)"
  using assms by (cases sel) (simp_all add: handle_def)

theorem handle_error_delivery_witness:
  "failing_phase demo_deal [] = (Ret (None, Some UnsupportedUnixfsType), [])
   \<and> select_possible \<lparr>updated_received = True, stop_fired = False\<rparr> SendProceeds
   \<and> handle demo_deal failing_phase DealFailed SendProceeds [] =
       (Ret [\<lparr>upd_newState = DealFailed, upd_id = Cid ''prop'',
              upd_err = Some UnsupportedUnixfsType, upd_mut = None\<rparr>], [])"
proof -
  have h1: "failing_phase demo_deal [] = (Ret (None, Some UnsupportedUnixfsType), [])"
    by (simp add: failing_phase_def)
  have h2: "select_possible \<lparr>updated_received = True, stop_fired = False\<rparr> SendProceeds"
    by simp
  from handle_error_delivery [where cb = failing_phase and deal = demo_deal and tr = "[]"
      and nxt = DealFailed, OF h1 h2] h1 h2
  show ?thesis
    by (simp add: demo_deal_def)
qed

subsection \<open>consumeVouchers: the empty voucher list\<close>

text \<open>
  Claim C8 says that consumeVouchers returns the ``no payment vouchers'' error for every
  deal with an empty voucher list. The chain head is asked for first: when that call
  fails, its error is returned instead.
\<close>

theorem consumeVouchers_no_vouchers_offline:
  "Vouchers (Payment (Proposal (deal_with_vouchers []))) = []
   \<and> consumeVouchers demo_params offline_handler (deal_with_vouchers []) []
       = (Ret (Some (External ''no chain'')), [EvChainHead])
   \<and> fst (consumeVouchers demo_params offline_handler (deal_with_vouchers []) [])
       \<noteq> Ret (Some NoPaymentVouchers)"
  by (simp add: consumeVouchers_def offline_handler_def demo_handler_def deal_with_vouchers_def)

text \<open>
  Claim C8, as the code has it: for an empty voucher list consumeVouchers returns an error
  after the ChainHead call and before the increment is computed, the ``no payment
  vouchers'' error when ChainHead succeeded and the error of ChainHead otherwise; the
  division by the voucher count is never a division by zero.
\<close>

theorem consumeVouchers_no_vouchers:
  assumes "Vouchers (Payment (Proposal deal)) = []"
  shows "consumeVouchers bld h deal tr =
           (case full_ChainHead h tr of
              Inl err \<Rightarrow> Ret (Some (External err))
            | Inr curHead \<Rightarrow> Ret (Some NoPaymentVouchers), tr @ [EvChainHead])
         \<and> fst (consumeVouchers bld h deal tr) \<noteq> Panic DivideByZero"
  using assms by (simp add: consumeVouchers_def Let_def split: sum.splits)

theorem consumeVouchers_no_vouchers_witness:
  "Vouchers (Payment (Proposal (deal_with_vouchers []))) = []
   \<and> consumeVouchers demo_params demo_handler (deal_with_vouchers []) []
       = (Ret (Some NoPaymentVouchers), [EvChainHead])"
proof -
  have h: "Vouchers (Payment (Proposal (deal_with_vouchers []))) = []"
    by (simp add: deal_with_vouchers_def)
  from consumeVouchers_no_vouchers [OF h, of demo_params demo_handler "[]"] h show ?thesis
    by (simp add: demo_handler_def)
qed

subsection \<open>consumeVouchers: the minimum price\<close>

text \<open>
  Claim C3 says that a deal priced below \<open>pricePerByteBlock * size * duration\<close> is
  refused before any voucher is examined. The price check comes after the validation
  loop: here the chain head is read and the voucher goes through checkVoucher
  (PaychVoucherCheckValid is called) before the minimum-price error is returned.
\<close>

theorem minimum_price_checked_after_vouchers:
  "TotalPrice (Proposal demo_deal)
     < pricePerByteBlock pricey_handler * uint (Size (Proposal demo_deal))
         * uint (Duration (Proposal demo_deal))
   \<and> consumeVouchers demo_params pricey_handler demo_deal [] =
       (Ret (Some (MinimumPrice 160)),
        [EvChainHead, EvPaychVoucherCheckValid ''paych'' (Some demo_voucher)])"
  by (simp add: consumeVouchers_def checkVoucher_def BigInt_Uint64_def Let_def demo_defs)

text \<open>
  Claim C3, as the code has it: for a deal priced below the minimum, consumeVouchers
  refuses redemption with the minimum-price error once ChainHead, the start-height check
  and the validation of every voucher have passed, so after PaychVoucherCheckValid was
  called for every voucher of the deal, in order, and not before; it never succeeds and
  never redeems (no PaychVoucherAdd call).
\<close>

theorem consumeVouchers_below_minimum_price:
  fixes bld h deal tr
  defines "vs \<equiv> Vouchers (Payment (Proposal deal))"
  defines "incr \<equiv> Duration (Proposal deal) div of_nat (length vs)"
  defines "minPrice \<equiv> pricePerByteBlock h * uint (Size (Proposal deal)) * uint (Duration (Proposal deal))"
  assumes low: "TotalPrice (Proposal deal) < minPrice"
  shows "fst (consumeVouchers bld h deal tr) \<noteq> Ret None
         \<and> filter is_PaychVoucherAdd (snd (consumeVouchers bld h deal tr))
             = filter is_PaychVoucherAdd tr
         \<and> (\<forall>mp. fst (consumeVouchers bld h deal tr) = Ret (Some (MinimumPrice mp)) \<longrightarrow>
               mp = minPrice
               \<and> snd (consumeVouchers bld h deal tr) =
                   tr @ EvChainHead
                        # map (EvPaychVoucherCheckValid (PayChActor (Payment (Proposal deal)))) vs)
         \<and> (\<forall>head first.
               full_ChainHead h tr = Inr head \<and> vs \<noteq> [] \<and> length vs < 2 ^ 64
               \<and> hd vs = Some first
               \<and> TimeLock first - incr \<le> Height head + DealVoucherSkewLimit bld
               \<and> fst (validateVouchers bld h deal (Height head) incr (Lane first)
                        (VoucherSpec bld (Duration (Proposal deal)) (TotalPrice (Proposal deal))
                           (TimeLock first - incr) None) 0 vs (tr @ [EvChainHead])) = Ret None
               \<longrightarrow> consumeVouchers bld h deal tr =
                     (Ret (Some (MinimumPrice minPrice)),
                      tr @ EvChainHead
                           # map (EvPaychVoucherCheckValid (PayChActor (Payment (Proposal deal)))) vs))"
proof -
  have refused: "consumeVouchers bld h deal tr =
          (Ret (Some (MinimumPrice minPrice)),
           tr @ EvChainHead # map (EvPaychVoucherCheckValid (PayChActor (Payment (Proposal deal)))) vs)"
    if head: "full_ChainHead h tr = Inr head" and ne: "vs \<noteq> []" and len: "length vs < 2 ^ 64"
      and first: "hd vs = Some first"
      and start: "TimeLock first - incr \<le> Height head + DealVoucherSkewLimit bld"
      and ok: "fst (validateVouchers bld h deal (Height head) incr (Lane first)
                      (VoucherSpec bld (Duration (Proposal deal)) (TotalPrice (Proposal deal))
                         (TimeLock first - incr) None) 0 vs (tr @ [EvChainHead])) = Ret None"
    for head and first :: SignedVoucher
  proof -
    from len have "unat (of_nat (length vs) :: u64) = length vs"
      by (simp add: unat_of_nat)
    with ne have nz: "(of_nat (length vs) :: u64) \<noteq> 0" by auto
    obtain tr2 where v: "validateVouchers bld h deal (Height head) incr (Lane first)
                      (VoucherSpec bld (Duration (Proposal deal)) (TotalPrice (Proposal deal))
                         (TimeLock first - incr) None) 0 vs (tr @ [EvChainHead]) = (Ret None, tr2)"
      using ok
      by (cases "validateVouchers bld h deal (Height head) incr (Lane first)
                      (VoucherSpec bld (Duration (Proposal deal)) (TotalPrice (Proposal deal))
                         (TimeLock first - incr) None) 0 vs (tr @ [EvChainHead])") simp
    from validateVouchers_ok_trace [OF v]
    have tr2: "tr2 = tr @ EvChainHead
                 # map (EvPaychVoucherCheckValid (PayChActor (Payment (Proposal deal)))) vs"
      by simp
    from start have "\<not> Height head + DealVoucherSkewLimit bld < TimeLock first - incr"
      by (simp add: not_less)
    with head ne nz first v tr2 low show ?thesis
      unfolding vs_def incr_def minPrice_def
      by (simp add: consumeVouchers_def Let_def)
  qed
  have rest: "fst (consumeVouchers bld h deal tr) \<noteq> Ret None
         \<and> filter is_PaychVoucherAdd (snd (consumeVouchers bld h deal tr))
             = filter is_PaychVoucherAdd tr
         \<and> (\<forall>mp. fst (consumeVouchers bld h deal tr) = Ret (Some (MinimumPrice mp)) \<longrightarrow>
               mp = minPrice
               \<and> snd (consumeVouchers bld h deal tr) =
                   tr @ EvChainHead
                        # map (EvPaychVoucherCheckValid (PayChActor (Payment (Proposal deal)))) vs)"
  proof (cases bld h deal tr rule: consumeVouchers_cases)
  case (early r)
  then show ?thesis by simp
next
  case (invalid head first r tr2)
  from validateVouchers_no_add [OF invalid(3)]
  have "filter is_PaychVoucherAdd tr2 = filter is_PaychVoucherAdd tr" by simp
  moreover have "r \<noteq> Ret (Some (MinimumPrice mp))" for mp
  proof
    assume a: "r = Ret (Some (MinimumPrice mp))"
    from invalid(3) [unfolded a, THEN arg_cong [where f = fst]]
    show False by (auto dest: validateVouchers_error)
  qed
  ultimately show ?thesis using invalid(4,5) by simp
next
  case (valid head first tr2)
  from validateVouchers_ok_trace [OF valid(5)] valid(6) low show ?thesis
    by (simp add: minPrice_def vs_def)
  qed
  from rest refused show ?thesis by blast
qed

theorem consumeVouchers_below_minimum_price_witness:
  "TotalPrice (Proposal demo_deal)
     < pricePerByteBlock pricey_handler * uint (Size (Proposal demo_deal))
         * uint (Duration (Proposal demo_deal))
   \<and> fst (validateVouchers demo_params pricey_handler demo_deal 100 20 0 [\<lparr>spec_Amount = 100\<rparr>] 0
            [Some demo_voucher] [EvChainHead]) = Ret None
   \<and> consumeVouchers demo_params pricey_handler demo_deal [] =
       (Ret (Some (MinimumPrice 160)),
        [EvChainHead, EvPaychVoucherCheckValid ''paych'' (Some demo_voucher)])
   \<and> filter is_PaychVoucherAdd (snd (consumeVouchers demo_params pricey_handler demo_deal [])) = []"
proof -
  let ?vs = "Vouchers (Payment (Proposal demo_deal))"
  let ?incr = "Duration (Proposal demo_deal) div of_nat (length ?vs)"
  let ?head = "\<lparr>Height = 100\<rparr>"
  have h: "TotalPrice (Proposal demo_deal)
             < pricePerByteBlock pricey_handler * uint (Size (Proposal demo_deal))
                 * uint (Duration (Proposal demo_deal))"
    by (simp add: demo_defs)
  have v: "fst (validateVouchers demo_params pricey_handler demo_deal 100 20 0
                  [\<lparr>spec_Amount = 100\<rparr>] 0 [Some demo_voucher] [EvChainHead]) = Ret None"
    by (simp add: checkVoucher_def BigInt_Uint64_def Let_def demo_defs)
  have p: "full_ChainHead pricey_handler [] = Inr ?head \<and> ?vs \<noteq> [] \<and> length ?vs < 2 ^ 64
           \<and> hd ?vs = Some demo_voucher
           \<and> TimeLock demo_voucher - ?incr \<le> Height ?head + DealVoucherSkewLimit demo_params
           \<and> fst (validateVouchers demo_params pricey_handler demo_deal (Height ?head) ?incr
                    (Lane demo_voucher)
                    (VoucherSpec demo_params (Duration (Proposal demo_deal))
                       (TotalPrice (Proposal demo_deal)) (TimeLock demo_voucher - ?incr) None)
                    0 ?vs ([] @ [EvChainHead])) = Ret None"
    using v by (simp add: demo_defs)
  from consumeVouchers_below_minimum_price [OF h, of demo_params "[]"] p
  have res: "consumeVouchers demo_params pricey_handler demo_deal [] =
          (Ret (Some (MinimumPrice (pricePerByteBlock pricey_handler * uint (Size (Proposal demo_deal))
                                      * uint (Duration (Proposal demo_deal))))),
           [] @ EvChainHead
                # map (EvPaychVoucherCheckValid (PayChActor (Payment (Proposal demo_deal)))) ?vs)"
    by blast
  have e: "pricePerByteBlock pricey_handler * uint (Size (Proposal demo_deal))
             * uint (Duration (Proposal demo_deal)) = 160"
    and m: "[] @ EvChainHead
                # map (EvPaychVoucherCheckValid (PayChActor (Payment (Proposal demo_deal)))) ?vs
            = [EvChainHead, EvPaychVoucherCheckValid ''paych'' (Some demo_voucher)]"
    by (simp_all add: demo_defs)
  from res have res': "consumeVouchers demo_params pricey_handler demo_deal [] =
          (Ret (Some (MinimumPrice 160)),
           [EvChainHead, EvPaychVoucherCheckValid ''paych'' (Some demo_voucher)])"
    unfolding e m .
  from h v res' show ?thesis by simp
qed

subsection \<open>consumeVouchers: the close height of a voucher\<close>

text \<open>
  Claim C4 says that checkVoucher, called by consumeVouchers with the bound
  \<open>currentHeight + increment * (i + 1) + skewLimit\<close>, rejects every voucher whose
  MinCloseHeight or TimeLock exceeds the bound. The checks of lines 76 to 82 do that,
  but line 68 comes first and calls \<open>PieceSize.Uint64()\<close> on the decoded payload without
  a nil check (the nil check of line 51 covers \<open>Extra\<close> only): for a voucher above the
  bound whose payload carries no piece size, checkVoucher and consumeVouchers panic
  instead of returning an error.
\<close>

theorem late_voucher_without_piece_size_panics:
  "(130 :: u64) = Height \<lparr>Height = 100\<rparr>
      + (Duration (Proposal (deal_with_vouchers [Some late_voucher]))
           div of_nat (length (Vouchers (Payment (Proposal (deal_with_vouchers [Some late_voucher])))))
           * of_nat (0 + 1))
      + DealVoucherSkewLimit sizeless_params
   \<and> 130 < MinCloseHeight late_voucher
   \<and> checkVoucher sizeless_params demo_handler (deal_with_vouchers [Some late_voucher])
         (Some late_voucher) 0 130 100 [EvChainHead]
       = (Panic NilDereference, [EvChainHead, EvPaychVoucherCheckValid ''paych'' (Some late_voucher)])
   \<and> consumeVouchers sizeless_params demo_handler (deal_with_vouchers [Some late_voucher]) []
       = (Panic NilDereference, [EvChainHead, EvPaychVoucherCheckValid ''paych'' (Some late_voucher)])"
  by (simp add: consumeVouchers_def checkVoucher_def Let_def demo_defs)

text \<open>
  Apart from that panic the voucher above the bound is never accepted: with
  \<open>increment = duration / voucherCount\<close>, for the voucher at index \<open>i\<close> checkVoucher
  returns an error unless the payload carries no piece size, the close-height or
  time-lock error when the checks before them pass, and consumeVouchers neither succeeds
  nor redeems. The bound is the 64-bit sum of the code; it is at most the unbounded sum,
  so a voucher above the unbounded sum is covered as well.
\<close>

lemma late_voucher_never_accepted:
  fixes bld h deal tr
  defines "vs \<equiv> Vouchers (Payment (Proposal deal))"
  defines "incr \<equiv> Duration (Proposal deal) div of_nat (length vs)"
  assumes i: "i < length vs" and v: "vs ! i = Some v"
    and head: "full_ChainHead h tr = Inr head"
    and mc: "maxClose = Height head + (incr * of_nat (i + 1)) + DealVoucherSkewLimit bld"
    and late: "maxClose < MinCloseHeight v \<or> maxClose < TimeLock v
               \<or> unat (Height head) + unat incr * (i + 1) + unat (DealVoucherSkewLimit bld)
                    < unat (MinCloseHeight v)
               \<or> unat (Height head) + unat incr * (i + 1) + unat (DealVoucherSkewLimit bld)
                    < unat (TimeLock v)"
  shows "((\<exists>err. fst (checkVoucher bld h deal (vs ! i) lane maxClose amount tr') = Ret (Some err))
          \<or> (fst (checkVoucher bld h deal (vs ! i) lane maxClose amount tr') = Panic NilDereference
             \<and> (\<exists>ex incl. Extra v = Some ex \<and> DecodeInclChallenge bld (Data ex) = Inr incl
                   \<and> incl_PieceSize incl = None)))
         \<and> (full_PaychVoucherCheckValid h tr' (PayChActor (Payment (Proposal deal))) (Some v) = None
              \<and> Extra v = Some ex \<and> Actor ex = MinerAddress (Proposal deal)
              \<and> Method ex = PaymentVerifyInclusion bld
              \<and> DecodeInclChallenge bld (Data ex) = Inr incl
              \<and> incl_PieceSize incl = Some pieceSize
              \<and> BigInt_Uint64 pieceSize = Size (Proposal deal)
              \<and> incl_CommP incl = CommP (Proposal deal)
            \<longrightarrow> fst (checkVoucher bld h deal (vs ! i) lane maxClose amount tr') =
                  Ret (Some (if maxClose < MinCloseHeight v
                             then MinCloseHeightTooHigh (MinCloseHeight v) maxClose
                             else TimeLockTooHigh (TimeLock v) maxClose)))
         \<and> fst (consumeVouchers bld h deal tr) \<noteq> Ret None
         \<and> filter is_PaychVoucherAdd (snd (consumeVouchers bld h deal tr))
             = filter is_PaychVoucherAdd tr"
proof -
  have le: "unat maxClose \<le> unat (Height head) + unat incr * (i + 1) + unat (DealVoucherSkewLimit bld)"
    unfolding mc by (rule unat_maxClose_le)
  from late le have late': "maxClose < MinCloseHeight v \<or> maxClose < TimeLock v"
    by (auto simp: word_less_nat_alt)
  have c1: "(\<exists>err. fst (checkVoucher bld h deal (vs ! i) lane maxClose amount tr') = Ret (Some err))
          \<or> (fst (checkVoucher bld h deal (vs ! i) lane maxClose amount tr') = Panic NilDereference
             \<and> (\<exists>ex incl. Extra v = Some ex \<and> DecodeInclChallenge bld (Data ex) = Inr incl
                   \<and> incl_PieceSize incl = None))"
    unfolding v by (rule checkVoucher_late [OF late'])
  have c2: "full_PaychVoucherCheckValid h tr' (PayChActor (Payment (Proposal deal))) (Some v) = None
              \<and> Extra v = Some ex \<and> Actor ex = MinerAddress (Proposal deal)
              \<and> Method ex = PaymentVerifyInclusion bld
              \<and> DecodeInclChallenge bld (Data ex) = Inr incl
              \<and> incl_PieceSize incl = Some pieceSize
              \<and> BigInt_Uint64 pieceSize = Size (Proposal deal)
              \<and> incl_CommP incl = CommP (Proposal deal)
            \<longrightarrow> fst (checkVoucher bld h deal (vs ! i) lane maxClose amount tr') =
                  Ret (Some (if maxClose < MinCloseHeight v
                             then MinCloseHeightTooHigh (MinCloseHeight v) maxClose
                             else TimeLockTooHigh (TimeLock v) maxClose))"
    unfolding v using checkVoucher_late_error [OF late'] by blast
  have c34: "\<not> (fst (consumeVouchers bld h deal tr) = Ret None
               \<or> filter is_PaychVoucherAdd (snd (consumeVouchers bld h deal tr))
                   \<noteq> filter is_PaychVoucherAdd tr)"
  proof
    assume "fst (consumeVouchers bld h deal tr) = Ret None
            \<or> filter is_PaychVoucherAdd (snd (consumeVouchers bld h deal tr))
                \<noteq> filter is_PaychVoucherAdd tr"
    from consumeVouchers_reaches_redeem [OF this] head obtain first :: SignedVoucher where
      ok: "fst (validateVouchers bld h deal (Height head) incr (Lane first)
                 (VoucherSpec bld (Duration (Proposal deal)) (TotalPrice (Proposal deal))
                    (TimeLock first - incr) None) 0 vs (tr @ [EvChainHead])) = Ret None"
      by (auto simp: vs_def incr_def)
    from validateVouchers_ok [OF ok i] v mc
    have "MinCloseHeight v \<le> maxClose \<and> TimeLock v \<le> maxClose" by auto
    with late' show False by auto
  qed
  from c1 c2 c34 show ?thesis by blast
qed

subsection \<open>consumeVouchers: the start height\<close>

text \<open>
  Claim C10 says that whenever the first voucher's TimeLock is below the increment, the
  start height wraps to a value near \<open>2^64\<close> and the deal is rejected as starting too
  far in the future, provided \<open>currentHeight + skewLimit\<close> does not wrap. The wrapped
  start height is \<open>2^64 - (increment - timeLock)\<close>, which is not near \<open>2^64\<close> for a
  large increment: with a duration of \<open>2^64 - 1\<close>, one voucher locked at height 100
  and the chain at height 100 the start height is 101, the check passes and the deal is
  redeemed.
\<close>

theorem start_height_wrap_accepted:
  "TimeLock long_voucher
     < Duration (Proposal long_deal) div of_nat (length (Vouchers (Payment (Proposal long_deal))))
   \<and> unat (Height \<lparr>Height = 100\<rparr>) + unat (DealVoucherSkewLimit demo_params) < 2 ^ 64
   \<and> full_ChainHead demo_handler [] = Inr \<lparr>Height = 100\<rparr>
   \<and> TimeLock long_voucher
       - Duration (Proposal long_deal) div of_nat (length (Vouchers (Payment (Proposal long_deal))))
       = 101
   \<and> consumeVouchers demo_params demo_handler long_deal [] =
       (Ret None,
        [EvChainHead, EvPaychVoucherCheckValid ''paych'' (Some long_voucher),
         EvPaychVoucherAdd ''paych'' (Some long_voucher) None 100])"
  by (simp add: consumeVouchers_def checkVoucher_def BigInt_Uint64_def Let_def demo_defs)

text \<open>
  Claim C10, as the code has it: when ChainHead succeeds and the first voucher's TimeLock
  is below the increment, the start height wraps to \<open>2^64 - (increment - timeLock)\<close>,
  and consumeVouchers rejects the deal as starting too far in the future provided
  \<open>currentHeight + skewLimit + (increment - timeLock) < 2^64\<close>.
\<close>

theorem start_height_wraps:
  fixes bld h deal tr
  defines "vs \<equiv> Vouchers (Payment (Proposal deal))"
  defines "incr \<equiv> Duration (Proposal deal) div of_nat (length vs)"
  assumes head: "full_ChainHead h tr = Inr head"
    and first: "vs = Some first # rest"
    and small: "TimeLock first < incr"
    and room: "unat (Height head) + unat (DealVoucherSkewLimit bld)
                 + (unat incr - unat (TimeLock first)) < 2 ^ 64"
  shows "unat (TimeLock first - incr) = 2 ^ 64 - (unat incr - unat (TimeLock first))
         \<and> consumeVouchers bld h deal tr =
             (Ret (Some (DealStartsTooFar (TimeLock first - incr) (Height head)
                           (Height head + DealVoucherSkewLimit bld) incr)),
              tr @ [EvChainHead])"
proof -
  from small have lt: "unat (TimeLock first) < unat incr"
    by (simp add: word_less_nat_alt)
  have b: "unat incr < 2 ^ 64" using unsigned_less [of incr] by simp
  have startH: "unat (TimeLock first - incr) = 2 ^ 64 - (unat incr - unat (TimeLock first))"
    using lt b by (simp add: unat_sub_if')
  from room have "unat (Height head) + unat (DealVoucherSkewLimit bld) < 2 ^ 64" by simp
  then have sum: "unat (Height head + DealVoucherSkewLimit bld)
                    = unat (Height head) + unat (DealVoucherSkewLimit bld)"
    by (simp add: unat_add_lem [THEN iffD1])
  from room lt startH sum have far: "Height head + DealVoucherSkewLimit bld < TimeLock first - incr"
    by (simp add: word_less_nat_alt)
  from small have nz: "(of_nat (length vs) :: u64) \<noteq> 0"
    by (auto simp: incr_def)
  from head first far nz show ?thesis
    using startH by (simp add: consumeVouchers_def Let_def vs_def incr_def)
qed

theorem start_height_wraps_witness:
  "consumeVouchers demo_params demo_handler (deal_with_vouchers [Some early_voucher]) [] =
     (Ret (Some (DealStartsTooFar 18446744073709551606 100 110 20)), [EvChainHead])"
proof -
  let ?deal = "deal_with_vouchers [Some early_voucher]"
  let ?incr = "Duration (Proposal ?deal) div of_nat (length (Vouchers (Payment (Proposal ?deal))))"
  have head: "full_ChainHead demo_handler [] = Inr \<lparr>Height = 100\<rparr>"
    by (simp add: demo_handler_def)
  have first: "Vouchers (Payment (Proposal ?deal)) = Some early_voucher # []"
    by (simp add: deal_with_vouchers_def)
  have small: "TimeLock early_voucher < ?incr"
    by (simp add: demo_defs)
  have room: "unat (Height \<lparr>Height = 100\<rparr>) + unat (DealVoucherSkewLimit demo_params)
                + (unat ?incr - unat (TimeLock early_voucher)) < 2 ^ 64"
    by (simp add: demo_defs)
  from start_height_wraps [OF head first small room] show ?thesis
    by (simp add: demo_defs)
qed

subsection \<open>The Sealing phase: the Extra of a voucher\<close>

text \<open>
  Claim C9: the loop of the Sealing phase reads \<open>v.Extra.Method\<close> without a nil check.
  When every voucher of the deal is a non-nil pointer with a non-nil Extra, the Sealing
  phase does not panic. checkVoucher enforces this in the Accept phase: when
  consumeVouchers succeeds, and so when accept returns no error, every voucher of the
  deal is non-nil with a non-nil Extra.
\<close>

theorem sealing_extra_dereference:
  "((\<forall>v \<in> set (Vouchers (Payment (Proposal deal))). \<exists>sv ex. v = Some sv \<and> Extra sv = Some ex)
      \<longrightarrow> fst (sealing bld h deal tr) \<noteq> Panic p)
   \<and> (fst (consumeVouchers bld' h' deal tr') = Ret None
      \<longrightarrow> (\<forall>v \<in> set (Vouchers (Payment (Proposal deal))). \<exists>sv ex. v = Some sv \<and> Extra sv = Some ex))
   \<and> (fst (accept bld' h' deal tr') = Ret (m, None)
      \<longrightarrow> (\<forall>v \<in> set (Vouchers (Payment (Proposal deal))). \<exists>sv ex. v = Some sv \<and> Extra sv = Some ex))"
proof -
  have a: "fst (sealing bld h deal tr) \<noteq> Panic p"
    if "\<forall>v \<in> set (Vouchers (Payment (Proposal deal))). \<exists>sv ex. v = Some sv \<and> Extra sv = Some ex"
  proof -
    have "storeProofs bld h deal proofB 0 (Vouchers (Payment (Proposal deal))) tr1 = (Panic q, tr2)
            \<Longrightarrow> False" for proofB tr1 q tr2
      using storeProofs_no_panic [OF that, of bld h deal proofB 0 tr1 q] by simp
    then show ?thesis
      by (auto simp: sealing_def Let_def split: prod.splits sum.splits res.splits option.splits)
  qed
  have b: "\<forall>v \<in> set (Vouchers (Payment (Proposal deal))). \<exists>sv ex. v = Some sv \<and> Extra sv = Some ex"
    if "fst (accept bld' h' deal tr') = Ret (m, None)"
    using accept_ok_consumed [OF that] consumeVouchers_ok_extra by blast
  from a b consumeVouchers_ok_extra show ?thesis by blast
qed

theorem sealing_extra_dereference_witness:
  "Vouchers (Payment (Proposal demo_deal)) = [Some demo_voucher]
   \<and> Extra demo_voucher = Some demo_extra
   \<and> fst (sealing demo_params demo_handler demo_deal []) \<noteq> Panic NilDereference"
proof -
  have vs: "Vouchers (Payment (Proposal demo_deal)) = [Some demo_voucher]"
    by (simp add: demo_deal_def demo_proposal_def)
  have ex: "Extra demo_voucher = Some demo_extra"
    by (simp add: demo_voucher_def)
  from vs ex
  have "\<forall>v \<in> set (Vouchers (Payment (Proposal demo_deal))). \<exists>sv ex. v = Some sv \<and> Extra sv = Some ex"
    by simp
  with sealing_extra_dereference [of demo_deal demo_params demo_handler "[]" NilDereference]
  have "fst (sealing demo_params demo_handler demo_deal []) \<noteq> Panic NilDereference"
    by blast
  with vs ex show ?thesis by simp
qed

(* C7 *)

subsection \<open>A failed send of the signed response\<close>

text \<open>
  Claim C2 says that in every phase a failure of sendSignedResponse is logged and never
  makes the phase handler return an error, and that the Accept phase goes on to fetch
  the data graph. The Accept phase returns the error of the send and does not call
  FetchGraph.
\<close>

theorem accept_send_failure_returned:
  "accept demo_params mute_handler demo_deal [] =
     (Ret (None, Some (External ''stream reset'')),
      [EvChainHead, EvPaychVoucherCheckValid ''paych'' (Some demo_voucher),
       EvPaychVoucherAdd ''paych'' (Some demo_voucher) None 100,
       EvLogInfo ''fetching data for a deal'',
       EvSendSignedResponse
         \<lparr>resp_State = DealAccepted, resp_Message = [], resp_Proposal = Cid ''prop'',
          resp_PieceInclusionProof = \<lparr>Position = 0, ProofElements = []\<rparr>,
          resp_CommD = [], resp_SectorCommitMessage = None\<rparr>
         (Some ''stream reset'')])"
  by (simp add: accept_def consumeVouchers_def checkVoucher_def BigInt_Uint64_def Let_def
        StorageDealResponse_zero_def cid_Undef_def demo_defs)

text \<open>
  Claim C2, as the code has it. When a send of the response fails in a run of a phase:
  Staged logs the failure, goes on to read the file root and never returns the error of
  the send; Sealing and Complete log the failure as their last step and return neither a
  mutation nor an error; Accept returns the error of the send and does not fetch the
  data graph.
\<close>

theorem failed_send_per_phase:
  "(EvSendSignedResponse resp (Some e) \<in> set (new_events tr (snd (staged h deal tr))) \<longrightarrow>
      (\<exists>rest. new_events tr (snd (staged h deal tr)) =
         [EvSendSignedResponse resp (Some e),
          EvLogWarnf ''Sending deal response failed: %s'' (ArgErr (External e)),
          EvDagGet (Ref deal)] @ rest)
      \<and> (\<forall>m err. fst (staged h deal tr) = Ret (m, Some err) \<longrightarrow> err \<noteq> External e))
   \<and> (EvSendSignedResponse resp (Some e) \<in> set (new_events tr (snd (sealing bld h deal tr))) \<longrightarrow>
      fst (sealing bld h deal tr) = Ret (None, None)
      \<and> (\<exists>pre. new_events tr (snd (sealing bld h deal tr)) =
            pre @ [EvSendSignedResponse resp (Some e),
                   EvLogWarnf ''Sending deal response failed: %s'' (ArgErr (External e))]))
   \<and> (EvSendSignedResponse resp (Some e) \<in> set (new_events tr (snd (complete h deal tr))) \<longrightarrow>
      fst (complete h deal tr) = Ret (None, None)
      \<and> (\<exists>pre. new_events tr (snd (complete h deal tr)) =
            pre @ [EvSendSignedResponse resp (Some e),
                   EvLogWarnf ''Sending deal response failed: %s'' (ArgErr (External e))]))
   \<and> (EvSendSignedResponse resp (Some e) \<in> set (new_events tr (snd (accept bld h deal tr))) \<longrightarrow>
      fst (accept bld h deal tr) = Ret (None, Some (External e))
      \<and> filter is_FetchGraph (new_events tr (snd (accept bld h deal tr))) = [])"
  using staged_failed_send [of resp e tr h deal] sealing_failed_send [of resp e tr bld h deal]
    complete_failed_send [of resp e tr h deal] accept_failed_send [of resp e tr bld h deal]
  by blast

theorem failed_send_per_phase_witness:
  "fst (staged mute_handler demo_deal [])
     = Ret (Some (\<lambda>d. d\<lparr>SectorID := 7\<rparr>), None)
   \<and> take 3 (new_events [] (snd (staged mute_handler demo_deal []))) =
       [EvSendSignedResponse
          \<lparr>resp_State = DealStaged, resp_Message = [], resp_Proposal = Cid ''prop'',
           resp_PieceInclusionProof = \<lparr>Position = 0, ProofElements = []\<rparr>,
           resp_CommD = [], resp_SectorCommitMessage = None\<rparr> (Some ''stream reset''),
        EvLogWarnf ''Sending deal response failed: %s'' (ArgErr (External ''stream reset'')),
        EvDagGet (Ref demo_deal)]
   \<and> fst (sealing demo_params mute_handler demo_deal []) = Ret (None, None)
   \<and> fst (complete mute_handler demo_deal []) = Ret (None, None)
   \<and> fst (accept demo_params mute_handler demo_deal []) = Ret (None, Some (External ''stream reset''))
   \<and> filter is_FetchGraph (new_events [] (snd (accept demo_params mute_handler demo_deal []))) = []"
proof -
  let ?r = "\<lambda>s. \<lparr>resp_State = s, resp_Message = [], resp_Proposal = Cid ''prop'',
                 resp_PieceInclusionProof = \<lparr>Position = 0, ProofElements = []\<rparr>,
                 resp_CommD = [], resp_SectorCommitMessage = None\<rparr>"
  have st: "staged mute_handler demo_deal [] =
              (Ret (Some (\<lambda>d. d\<lparr>SectorID := 7\<rparr>), None),
               [EvSendSignedResponse (?r DealStaged) (Some ''stream reset''),
                EvLogWarnf ''Sending deal response failed: %s'' (ArgErr (External ''stream reset'')),
                EvDagGet (Cid ''data''), EvNewUnixfsFile 1, EvAddUnixfsPiece (Cid ''piece'') 2 20,
                EvLogWarnf ''New Sector: %d'' (ArgSector 7)])"
    by (simp add: staged_def Let_def StorageDealResponse_zero_def cid_Undef_def demo_defs)
  from st have h1: "EvSendSignedResponse (?r DealStaged) (Some ''stream reset'')
                      \<in> set (new_events [] (snd (staged mute_handler demo_deal [])))"
    by (simp add: new_events_def)
  from failed_send_per_phase [of "?r DealStaged" "''stream reset''" "[]" mute_handler demo_deal
      demo_params] h1
  obtain rest where "new_events [] (snd (staged mute_handler demo_deal [])) =
              [EvSendSignedResponse (?r DealStaged) (Some ''stream reset''),
               EvLogWarnf ''Sending deal response failed: %s'' (ArgErr (External ''stream reset'')),
               EvDagGet (Ref demo_deal)] @ rest"
    by blast
  then have c1: "take 3 (new_events [] (snd (staged mute_handler demo_deal []))) =
              [EvSendSignedResponse (?r DealStaged) (Some ''stream reset''),
               EvLogWarnf ''Sending deal response failed: %s'' (ArgErr (External ''stream reset'')),
               EvDagGet (Ref demo_deal)]"
    by simp
  have h2: "EvSendSignedResponse
              ((?r DealSealing)\<lparr>resp_PieceInclusionProof := \<lparr>Position = 0, ProofElements = [4, 5]\<rparr>,
                               resp_CommD := [9]\<rparr>) (Some ''stream reset'')
            \<in> set (new_events [] (snd (sealing demo_params mute_handler demo_deal [])))"
    by (simp add: sealing_def waitSealed_def getInclusionProof_def Let_def new_events_def
          StorageDealResponse_zero_def cid_Undef_def demo_defs)
  have h3: "EvSendSignedResponse ((?r DealComplete)\<lparr>resp_SectorCommitMessage := Some (Cid ''commit'')\<rparr>)
              (Some ''stream reset'')
            \<in> set (new_events [] (snd (complete mute_handler demo_deal [])))"
    by (simp add: complete_def Let_def new_events_def StorageDealResponse_zero_def cid_Undef_def
          demo_defs)
  have h4: "EvSendSignedResponse (?r DealAccepted) (Some ''stream reset'')
            \<in> set (new_events [] (snd (accept demo_params mute_handler demo_deal [])))"
    by (simp add: accept_def consumeVouchers_def checkVoucher_def BigInt_Uint64_def Let_def
          new_events_def StorageDealResponse_zero_def cid_Undef_def demo_defs)
  from failed_send_per_phase [of _ "''stream reset''" "[]" mute_handler demo_deal demo_params] h2
  have c2: "fst (sealing demo_params mute_handler demo_deal []) = Ret (None, None)" by blast
  from failed_send_per_phase [of _ "''stream reset''" "[]" mute_handler demo_deal demo_params] h3
  have c3: "fst (complete mute_handler demo_deal []) = Ret (None, None)" by blast
  from failed_send_per_phase [of _ "''stream reset''" "[]" mute_handler demo_deal demo_params] h4
  have c4: "fst (accept demo_params mute_handler demo_deal []) = Ret (None, Some (External ''stream reset''))
            \<and> filter is_FetchGraph (new_events [] (snd (accept demo_params mute_handler demo_deal []))) = []"
    by blast
  from st c1 c2 c3 c4 show ?thesis by simp
qed

subsection \<open>The Sealing phase\<close>

text \<open>
  Claim C5: when the sector is sealed and no piece of its list has the deal's key, the
  Sealing phase returns the ``not found'' error of getInclusionProof right after the wait:
  it makes no PaychVoucherAdd call.
\<close>

theorem sealing_piece_not_found:
  assumes "secst_WaitSeal h tr (SectorID deal) = Inr status"
    and "st_State status = Sealed"
    and "\<forall>p \<in> set (st_Pieces status). Key p \<noteq> SerializationUnixfs0 bld @ cid_String (Ref deal)"
  shows "sealing bld h deal tr =
           (Ret (None, Some (InclusionProofNotFound
                               (SerializationUnixfs0 bld @ cid_String (Ref deal))
                               (st_SectorID status))),
            tr @ [EvWaitSeal (SectorID deal)])
         \<and> filter is_PaychVoucherAdd (new_events tr (snd (sealing bld h deal tr))) = []"
  using assms
  by (simp add: sealing_def waitSealed_def getInclusionProof_def findPiece_None new_events_def)

theorem sealing_piece_not_found_witness:
  "sealing demo_params other_piece_handler demo_deal [] =
     (Ret (None, Some (InclusionProofNotFound ''0data'' 7)), [EvWaitSeal 7])"
proof -
  let ?st = "\<lparr>st_SectorID = 7, st_State = Sealed, st_SealErrorMsg = [], st_CommD = [9],
             st_Pieces = [\<lparr>Key = ''0other'', InclusionProof = [4, 5]\<rparr>]\<rparr>"
  have h1: "secst_WaitSeal other_piece_handler [] (SectorID demo_deal) = Inr ?st"
    by (simp add: other_piece_handler_def demo_handler_def demo_deal_def)
  have h2: "st_State ?st = Sealed" by simp
  have h3: "\<forall>p \<in> set (st_Pieces ?st).
              Key p \<noteq> SerializationUnixfs0 demo_params @ cid_String (Ref demo_deal)"
    by (simp add: demo_params_def demo_deal_def)
  from sealing_piece_not_found [OF h1 h2 h3] show ?thesis
    by (simp add: demo_params_def demo_deal_def)
qed

subsection \<open>The Complete phase\<close>




subsection \<open>The payment schedule\<close>

text \<open>
  Claim C7 says that whenever the number of vouchers divides the duration, the required
  cumulative amounts of the schedule are non-decreasing in the index and end at the
  total price. For the schedule as the spec describes it this fails for a negative total
  price, which decreases along the schedule, and for a duration of zero, which every
  number of vouchers divides and for which there is no schedule.
\<close>

theorem voucherSchedule_negative_price_zero_duration:
  "4 dvd unat (20 :: u64)
   \<and> voucherSchedule (- 100) 20 4 = Some [- 25, - 50, - 75, - 100]
   \<and> [- 25, - 50, - 75, - 100 :: int] ! 1 < [- 25, - 50, - 75, - 100] ! 0
   \<and> 4 dvd unat (0 :: u64)
   \<and> voucherSchedule 100 0 4 = None"
  by (simp add: voucherSchedule_def requiredAmount_def upt_rec)

text \<open>
  Claim C7, for the schedule as the spec describes it: when the number of vouchers divides
  the duration, the duration is not zero and the total price is not negative, the
  required cumulative amounts are non-decreasing in the index and the amount at the last
  index is the total price.
\<close>

theorem voucherSchedule_monotone_total:
  assumes n: "0 < n" and dv: "n dvd unat duration" and d: "duration \<noteq> 0"
    and p: "0 \<le> totalPrice"
  shows "\<exists>sched. voucherSchedule totalPrice duration n = Some sched \<and> length sched = n
           \<and> (\<forall>i j. i \<le> j \<and> j < n \<longrightarrow> sched ! i \<le> sched ! j)
           \<and> sched ! (n - 1) = totalPrice"
proof -
  let ?sched = "map (requiredAmount totalPrice duration n) [0..<n]"
  from d have dpos: "0 < unat duration" by (simp add: unat_gt_0)
  have s: "voucherSchedule totalPrice duration n = Some ?sched"
    using n d by (simp add: voucherSchedule_def)
  have mono: "?sched ! i \<le> ?sched ! j" if "i \<le> j" "j < n" for i j
  proof -
    from that have "i < n" by simp
    have "unat duration div n * (i + 1) \<le> unat duration div n * (j + 1)"
      using that by (intro mult_le_mono2) simp
    then have "int (unat duration div n * (i + 1)) \<le> int (unat duration div n * (j + 1))"
      by (simp only: of_nat_le_iff)
    then have "totalPrice * int (unat duration div n * (i + 1))
                 \<le> totalPrice * int (unat duration div n * (j + 1))"
      using p by (rule mult_left_mono)
    moreover from dpos have "0 < int (unat duration)" by (simp only: of_nat_0_less_iff)
    ultimately
    have "(totalPrice * int (unat duration div n * (i + 1))) div int (unat duration)
                 \<le> (totalPrice * int (unat duration div n * (j + 1))) div int (unat duration)"
      by (rule zdiv_mono1)
    with that \<open>i < n\<close> show ?thesis
      by (simp add: requiredAmount_eq [OF n dv d])
  qed
  have last: "?sched ! (n - 1) = totalPrice"
  proof -
    from n have lt: "n - 1 < n" by simp
    from n dv have e: "unat duration div n * (n - 1 + 1) = unat duration" by simp
    from d have nz: "uint duration \<noteq> 0" by (simp add: uint_0_iff)
    have "requiredAmount totalPrice duration n (n - 1)
            = (totalPrice * int (unat duration div n * (n - 1 + 1))) div int (unat duration)"
      using n dv d lt by (rule requiredAmount_eq)
    also have "\<dots> = (totalPrice * int (unat duration)) div int (unat duration)"
      by (simp only: e)
    also have "\<dots> = totalPrice"
      using nz by simp
    finally show ?thesis using lt by simp
  qed
  from s mono last show ?thesis by simp
qed

theorem voucherSchedule_monotone_total_witness:
  "voucherSchedule 100 20 4 = Some [25, 50, 75, 100]"
proof -
  have n: "0 < (4 :: nat)" by simp
  have dv: "(4 :: nat) dvd unat (20 :: u64)" by simp
  have d: "(20 :: u64) \<noteq> 0" by simp
  have p: "(0 :: int) \<le> 100" by simp
  from voucherSchedule_monotone_total [OF n dv d p] obtain sched where
    "voucherSchedule 100 20 4 = Some sched" by blast
  moreover have "voucherSchedule 100 20 4 = Some [25, 50, 75, 100]"
    by (simp add: voucherSchedule_def requiredAmount_def upt_rec)
  ultimately show ?thesis by simp
qed

end
